theory Spec2Isabelle
  imports Complex_Main
begin

section \<open>Numbers\<close>

text \<open>
  The program is JavaScript; its numbers are IEEE-754 doubles. Throughout this
  development a finite number is a \<^typ>\<open>real\<close> and the arithmetic on finite
  numbers is exact, with two exceptions, each a model of its own of what the reals leave
  out: the rounding of every operation to a double, in the section on rounding, for the
  identities of \<open>blend\<close>; and the special values of the doubles (infinities and NaN), in
  the section on degenerate coordinates. The iteration cap, the loop counters and the
  pixel coordinates are integers in the program (\<open>parseInt\<close>, \<open>iter++\<close>, \<open>px++\<close>) and are
  natural numbers here.
\<close>

text \<open>\<open>Math.round\<close> rounds to the nearest integer, a half towards plus infinity.\<close>

definition Math_round :: "real \<Rightarrow> int" where
  "Math_round v = \<lfloor>v + 1 / 2\<rfloor>"

text \<open>\<open>Math.pow(b, 1.5)\<close> on a base that is not negative (a zero base gives zero).\<close>

definition Math_pow :: "real \<Rightarrow> real \<Rightarrow> real" where
  "Math_pow b e = b powr e"

text \<open>Rounding to the nearest integer, a tie to the even one.\<close>

definition roundHalfEven :: "real \<Rightarrow> int" where
  "roundHalfEven v =
     (let f = \<lfloor>v\<rfloor>
      in if real_of_int f + 1 / 2 < v then f + 1
         else if v < real_of_int f + 1 / 2 then f
         else if even f then f else f + 1)"

section \<open>Rounding to a double\<close>

text \<open>
  Every arithmetic operation of the program returns the double nearest to the exact
  result, a tie to the one with an even significand. A double with exponent \<open>e\<close> (its
  magnitude at least \<open>2 ^ e\<close> and below \<open>2 ^ (e + 1)\<close>) is an integer multiple of
  \<open>2 ^ (e - 52)\<close>. \<open>to_double\<close> rounds a real so; overflow and subnormal numbers are
  not modelled. A real is a double when rounding leaves it as it is.
\<close>

definition double_exponent :: "real \<Rightarrow> int" where
  "double_exponent x = \<lfloor>log 2 \<bar>x\<bar>\<rfloor>"

definition round_at :: "int \<Rightarrow> real \<Rightarrow> real" where
  "round_at e x = real_of_int (roundHalfEven (x / 2 powi (e - 52))) * 2 powi (e - 52)"

definition to_double :: "real \<Rightarrow> real" where
  "to_double x = (if x = 0 then 0 else round_at (double_exponent x) x)"

definition is_double :: "real \<Rightarrow> bool" where
  "is_double x \<longleftrightarrow> to_double x = x"

section \<open>Compositor and colour conversion\<close>

text \<open>
  \<^verbatim>\<open>
  blend(bg, fg, alpha) {
    return bg * (1 - alpha) + fg * alpha;
  }
  \<close>
\<close>

definition blend :: "real \<Rightarrow> real \<Rightarrow> real \<Rightarrow> real" where
  "blend bg fg alpha = bg * (1 - alpha) + fg * alpha"

text \<open>
  The same expression with every operation rounded to a double: the subtraction, the two
  products and the sum.
\<close>

definition blend_double :: "real \<Rightarrow> real \<Rightarrow> real \<Rightarrow> real" where
  "blend_double bg fg alpha =
     to_double (to_double (bg * to_double (1 - alpha)) + to_double (fg * alpha))"

text \<open>
  The local function \<open>hue2rgb\<close> of \<open>hslToRgb\<close>: the two adjustments of \<open>t\<close> are
  sequential \<open>if\<close> statements, the second reading the adjusted value.
\<close>

definition hue2rgb :: "real \<Rightarrow> real \<Rightarrow> real \<Rightarrow> real" where
  "hue2rgb p q t0 =
     (let t1 = (if t0 < 0 then t0 + 1 else t0);
          t = (if t1 > 1 then t1 - 1 else t1)
      in if t < 1 / 6 then p + (q - p) * 6 * t
         else if t < 1 / 2 then q
         else if t < 2 / 3 then p + (q - p) * (2 / 3 - t) * 6
         else p)"

definition hslToRgb :: "real \<Rightarrow> real \<Rightarrow> real \<Rightarrow> int \<times> int \<times> int" where
  "hslToRgb h0 s0 l0 =
     (let h = h0 / 360; s = s0 / 100; l = l0 / 100;
          (r, g, b) =
            (if s = 0 then (l, l, l)
             else let q = (if l < 0.5 then l * (1 + s) else l + s - l * s);
                      p = 2 * l - q
                  in (hue2rgb p q (h + 1 / 3), hue2rgb p q h, hue2rgb p q (h - 1 / 3)))
      in (Math_round (r * 255), Math_round (g * 255), Math_round (b * 255)))"

section \<open>Escape-time engine\<close>

text \<open>
  \<^verbatim>\<open>
  mandelbrot(x, y) {
    let zx = 0, zy = 0, iter = 0;
    while (zx * zx + zy * zy < 4 && iter < this.maxIter) {
      const xtemp = zx * zx - zy * zy + x;
      zy = 2 * zx * zy + y;
      zx = xtemp;
      zx += 0.005 * Math.sin(zy * 3);
      zy += 0.005 * Math.sin(zx * 2);
      iter++;
    }
    return iter;
  }
  \<close>
  The loop is the recursive function \<open>mandelbrot_loop\<close> on the loop variables. The
  amplitude of the perturbation, the literal \<open>0.005\<close> of the source, is the
  parameter \<open>eps\<close> of the loop, so that the loop without perturbation (\<open>eps = 0\<close>)
  can be spoken about; \<open>mandelbrot\<close> is the source's function, at \<open>0.005\<close>.
\<close>

function mandelbrot_loop ::
  "real \<Rightarrow> nat \<Rightarrow> real \<Rightarrow> real \<Rightarrow> real \<Rightarrow> real \<Rightarrow> nat \<Rightarrow> nat" where
  "mandelbrot_loop eps maxIter x y zx zy iter =
     (if zx * zx + zy * zy < 4 \<and> iter < maxIter then
        let xtemp = zx * zx - zy * zy + x;
            zy1 = 2 * zx * zy + y;
            zx1 = xtemp;
            zx2 = zx1 + eps * sin (zy1 * 3);
            zy2 = zy1 + eps * sin (zx2 * 2)
        in mandelbrot_loop eps maxIter x y zx2 zy2 (iter + 1)
      else iter)"
  by pat_completeness auto
termination
  by (relation "measure (\<lambda>(eps, maxIter, x, y, zx, zy, iter). maxIter - iter)") auto

definition mandelbrot_eps :: "real \<Rightarrow> nat \<Rightarrow> real \<Rightarrow> real \<Rightarrow> nat" where
  "mandelbrot_eps eps maxIter x y = mandelbrot_loop eps maxIter x y 0 0 0"

definition mandelbrot :: "nat \<Rightarrow> real \<Rightarrow> real \<Rightarrow> nat" where
  "mandelbrot maxIter x y = mandelbrot_eps (5 / 1000) maxIter x y"

text \<open>
  \<^verbatim>\<open>
  julia(x, y, cx, cy) {
    let zx = x, zy = y, iter = 0;
    while (zx * zx + zy * zy < 4 && iter < this.maxIter) {
      const xtemp = zx * zx - zy * zy + cx;
      zy = 2 * zx * zy + cy;
      zx = xtemp;
      iter++;
    }
    return iter;
  }
  \<close>
\<close>

function julia_loop :: "nat \<Rightarrow> real \<Rightarrow> real \<Rightarrow> real \<Rightarrow> real \<Rightarrow> nat \<Rightarrow> nat" where
  "julia_loop maxIter cx cy zx zy iter =
     (if zx * zx + zy * zy < 4 \<and> iter < maxIter then
        let xtemp = zx * zx - zy * zy + cx;
            zy1 = 2 * zx * zy + cy;
            zx1 = xtemp
        in julia_loop maxIter cx cy zx1 zy1 (iter + 1)
      else iter)"
  by pat_completeness auto
termination
  by (relation "measure (\<lambda>(maxIter, cx, cy, zx, zy, iter). maxIter - iter)") auto

definition julia :: "nat \<Rightarrow> real \<Rightarrow> real \<Rightarrow> real \<Rightarrow> real \<Rightarrow> nat" where
  "julia maxIter x y cx cy = julia_loop maxIter cx cy x y 0"


section \<open>The generator object\<close>

text \<open>
  A recorded star: \<^verbatim>\<open>{ x: px, y: py, radius: ... }\<close>. The coordinates are the integers
  \<open>Math.floor(Math.random() * this.width)\<close> and \<open>Math.floor(Math.random() * this.height)\<close>.
\<close>

record star =
  star_x :: int
  star_y :: int
  star_radius :: real

text \<open>
  The fields of \<open>FractalGenerator\<close>. The constructor fixes \<open>width\<close> and \<open>height\<close> at 800;
  they are fields here as they are in the source, and the theorems hold for every size.
  \<open>canvas\<close> is the pixel buffer behind \<open>this.ctx\<close>: what \<open>getImageData(0, 0, width, height)\<close>
  reads and \<open>putImageData\<close> writes back, a flat array of \<open>4 * width * height\<close> bytes
  (red, green, blue, alpha of pixel \<open>(px, py)\<close> at index \<open>(py * width + px) * 4\<close> and the
  three after it). \<open>noise2D\<close> is the function \<open>createNoise2D()\<close> returned.
\<close>

record generator =
  width :: nat
  height :: nat
  maxIter :: nat
  zoom :: real
  offsetX :: real
  offsetY :: real
  baseHue :: real
  saturation :: real
  lightness :: real
  patternStrength :: real
  juliaParams_cx :: real
  juliaParams_cy :: real
  noise2D :: "real \<Rightarrow> real \<Rightarrow> real"
  minNoise :: real
  maxNoise :: real
  fogDensity :: real
  fogSize :: real
  fogLayerCount :: nat
  starClarity :: real
  keepBlackAreasClear :: bool
  starPositions :: "star list"
  coloredAreas :: "bool list"
  canvas :: "nat list"

text \<open>
  A store into the \<open>Uint8ClampedArray\<close> of an \<open>ImageData\<close> converts the number
  (ECMAScript \<open>ToUint8Clamp\<close>): clamped to \<open>[0, 255]\<close>, rounded to the nearest integer,
  a tie to the even one.
\<close>

definition toUint8Clamp :: "real \<Rightarrow> nat" where
  "toUint8Clamp v =
     (if v \<le> 0 then 0
      else if v \<ge> 255 then 255
      else nat (roundHalfEven v))"

text \<open>The remainder operator \<open>%\<close> on numbers: the quotient truncated towards zero.\<close>

definition js_rem :: "real \<Rightarrow> real \<Rightarrow> real" where
  "js_rem a b =
     (let q = a / b; t = (if q \<ge> 0 then \<lfloor>q\<rfloor> else \<lceil>q\<rceil>) in a - b * real_of_int t)"

text \<open>
  The mapping from a pixel to the plane, written twice in the source:
  \<^verbatim>\<open>
  const x = (px - this.width / 2) / this.zoom + this.offsetX;
  const y = (py - this.height / 2) / this.zoom + this.offsetY;
  \<close>
  and the choice of the recurrence:
  \<^verbatim>\<open>
  const iter = type === "julia"
      ? this.julia(x, y, this.juliaParams.cx, this.juliaParams.cy)
      : this.mandelbrot(x, y);
  \<close>
\<close>

definition planeX :: "generator \<Rightarrow> real \<Rightarrow> real" where
  "planeX g px = (px - real (width g) / 2) / zoom g + offsetX g"

definition planeY :: "generator \<Rightarrow> real \<Rightarrow> real" where
  "planeY g py = (py - real (height g) / 2) / zoom g + offsetY g"

definition iterAt :: "generator \<Rightarrow> string \<Rightarrow> real \<Rightarrow> real \<Rightarrow> nat" where
  "iterAt g type x y =
     (if type = ''julia'' then julia (maxIter g) x y (juliaParams_cx g) (juliaParams_cy g)
      else mandelbrot (maxIter g) x y)"

section \<open>Background noise wash\<close>

text \<open>
  The normalised noise of \<open>drawPerlinNoiseBackground\<close>, which the source clamps:
  \<^verbatim>\<open>
  let noiseValue = 0;
  for (let layer = 0; layer < 5; layer++) {
    const freq = 0.002 * Math.pow(2, layer);
    const amp = 0.4 / Math.pow(2, layer);
    noiseValue += this.noise2D(px * freq, py * freq) * amp;
  }
  const variation = Math.max(0, Math.min(1, (noiseValue + 1) / 2));
  \<close>
\<close>

definition drawPerlinNoiseBackground_variation ::
  "(real \<Rightarrow> real \<Rightarrow> real) \<Rightarrow> nat \<Rightarrow> nat \<Rightarrow> real" where
  "drawPerlinNoiseBackground_variation noise px py =
     (let noiseValue =
            fold (\<lambda>layer noiseValue.
                    let freq = 0.002 * 2 ^ layer; amp = 0.4 / 2 ^ layer
                    in noiseValue + noise (real px * freq) (real py * freq) * amp)
              [0..<5] 0
      in max 0 (min 1 ((noiseValue + 1) / 2)))"

section \<open>Fractal colouring pass\<close>

text \<open>
  The fog modulation of \<open>drawFractal\<close>:
  \<^verbatim>\<open>
  const fogX = px * 0.03;
  const fogY = py * 0.03;
  let fogMod = 0;
  for (let layer = 0; layer < 3; layer++) {
    const freq = 0.01 * Math.pow(2, layer);
    fogMod += (this.noise2D(fogX * freq, fogY * freq) * 0.5 + 0.5) / (layer + 1);
  }
  fogMod /= 1.875;
  \<close>
\<close>

definition drawFractal_fogMod :: "(real \<Rightarrow> real \<Rightarrow> real) \<Rightarrow> nat \<Rightarrow> nat \<Rightarrow> real" where
  "drawFractal_fogMod noise px py =
     (let fogX = real px * 0.03; fogY = real py * 0.03;
          fogMod =
            fold (\<lambda>layer fogMod.
                    let freq = 0.01 * 2 ^ layer
                    in fogMod + (noise (fogX * freq) (fogY * freq) * 0.5 + 0.5) / (real layer + 1))
              [0..<3] 0
      in fogMod / 1.875)"

text \<open>
  \<open>mask\<close> and \<open>fade\<close> of a pixel, from its iteration count:
  \<^verbatim>\<open>
  const mask = iter / this.maxIter;
  const fade = 1 - Math.pow(mask, 1.5);
  \<close>
\<close>

definition maskOf :: "generator \<Rightarrow> nat \<Rightarrow> real" where
  "maskOf g iter = real iter / real (maxIter g)"

definition fadeOf :: "generator \<Rightarrow> nat \<Rightarrow> real" where
  "fadeOf g iter = 1 - Math_pow (maskOf g iter) 1.5"

text \<open>
  The body of the two loops of \<open>drawFractal\<close>, on the pair of the pixel buffer and
  \<open>this.coloredAreas\<close>:
  \<^verbatim>\<open>
  const isColored = iter < this.maxIter && fade > 0.01;
  this.coloredAreas[py * this.width + px] = isColored;
  if (fade < 0.01) continue;
  const i = (py * this.width + px) * 4;
  ...
  const hue = ((1 - mask) * this.baseHue + mask * complementaryHue) % 360;
  const sat = Math.max(20, this.saturation + mask * 25);
  const light = this.lightness + mask * 35 + fogMod * 10;
  const [r, g, b] = this.hslToRgb(hue, sat, light);
  const alpha = 0.7 * fade;
  data[i] = this.blend(data[i], r, alpha);
  data[i + 1] = this.blend(data[i + 1], g, alpha);
  data[i + 2] = this.blend(data[i + 2], b, alpha);
  if (mask > this.minNoise && mask < this.maxNoise) {
    const fogStrength = 200 + fogMod * 55;
    const fogAlpha = (1 - mask) * 0.35;
    data[i] = this.blend(data[i], fogStrength, fogAlpha);
    data[i + 1] = this.blend(data[i + 1], fogStrength, fogAlpha);
    data[i + 2] = this.blend(data[i + 2], fogStrength, fogAlpha);
  }
  \<close>
  The second blend reads the bytes the first one stored.
\<close>

definition blendInto :: "nat list \<Rightarrow> nat \<Rightarrow> real \<Rightarrow> real \<Rightarrow> nat list" where
  "blendInto data i fg alpha = data[i := toUint8Clamp (blend (real (data ! i)) fg alpha)]"

definition drawFractal_pixel ::
  "generator \<Rightarrow> string \<Rightarrow> nat \<Rightarrow> nat \<Rightarrow> nat list \<times> bool list \<Rightarrow> nat list \<times> bool list" where
  "drawFractal_pixel g type px py st =
     (let data = fst st; areas = snd st;
          complementaryHue = js_rem (baseHue g + 180) 360;
          x = planeX g (real px);
          y = planeY g (real py);
          iter = iterAt g type x y;
          mask = maskOf g iter;
          fade = fadeOf g iter;
          isColored = (iter < maxIter g \<and> fade > 0.01);
          areas1 = areas[py * width g + px := isColored]
      in if fade < 0.01 then (data, areas1)
         else
           let i = (py * width g + px) * 4;
               fogMod = drawFractal_fogMod (noise2D g) px py;
               hue = js_rem ((1 - mask) * baseHue g + mask * complementaryHue) 360;
               sat = max 20 (saturation g + mask * 25);
               light = lightness g + mask * 35 + fogMod * 10;
               (r, gr, b) = hslToRgb hue sat light;
               alpha = 0.7 * fade;
               data1 = blendInto data i (real_of_int r) alpha;
               data2 = blendInto data1 (i + 1) (real_of_int gr) alpha;
               data3 = blendInto data2 (i + 2) (real_of_int b) alpha
           in if mask > minNoise g \<and> mask < maxNoise g then
                let fogStrength = 200 + fogMod * 55;
                    fogAlpha = (1 - mask) * 0.35;
                    data4 = blendInto data3 i fogStrength fogAlpha;
                    data5 = blendInto data4 (i + 1) fogStrength fogAlpha;
                    data6 = blendInto data5 (i + 2) fogStrength fogAlpha
                in (data6, areas1)
              else (data3, areas1))"

text \<open>
  \<open>drawFractal\<close>: \<open>this.coloredAreas\<close> starts as \<open>width * height\<close> times \<open>false\<close>; the
  outer loop runs over \<open>py\<close>, the inner one over \<open>px\<close>. The progress line written to the
  terminal is not part of the state.
\<close>

definition drawFractal :: "generator \<Rightarrow> string \<Rightarrow> generator" where
  "drawFractal g type =
     (let st = fold (\<lambda>py. fold (\<lambda>px. drawFractal_pixel g type px py) [0..<width g])
                 [0..<height g] (canvas g, replicate (width g * height g) False)
      in g\<lparr>coloredAreas := snd st, canvas := fst st\<rparr>)"


section \<open>Star placement pass\<close>

text \<open>
  \<open>Math.random()\<close> is a stream of numbers: \<open>rnd k\<close> is the value of the \<open>k\<close>-th call, and
  the state of the loop counts the calls made (\<open>drawn\<close>). The state of the loop of
  \<open>drawStarsInFractal\<close> is the list \<open>starPositions\<close> and the two counters.
  \<^verbatim>\<open>
  const maxStars = 300;
  let starsPlotted = 0, attempts = 0;
  const starPositions = [];
  while (starsPlotted < maxStars && attempts < maxStars * 10) {
    const px = Math.floor(Math.random() * this.width);
    const py = Math.floor(Math.random() * this.height);
    const x = (px - this.width / 2) / this.zoom + this.offsetX;
    const y = (py - this.height / 2) / this.zoom + this.offsetY;
    const iter = ...;
    if (iter === this.maxIter) {
      const size = Math.random() * 1.4;
      const brighterStar = Math.random() > 0.6;
      const glowSize = brighterStar ? 6 : 4;
      const glow = Math.random() > 0.3;
      starPositions.push({ x: px, y: py,
        radius: glow ? size * glowSize * 1.2 : size * 2 });
      ...
      starsPlotted++;
    }
    attempts++;
  }
  this.starPositions = starPositions;
  \<close>
  The gradient and the disk that the loop paints on the canvas for an accepted star are
  the canvas library's work and are left out: the model keeps the list of stars.
\<close>

record star_loop =
  stars :: "star list"
  starsPlotted :: nat
  attempts :: nat
  drawn :: nat

definition maxStars :: nat where
  "maxStars = 300"

text \<open>The pixel sampled by the attempt that starts at call \<open>k\<close>, and its iteration count.\<close>

definition samplePx :: "generator \<Rightarrow> (nat \<Rightarrow> real) \<Rightarrow> nat \<Rightarrow> int" where
  "samplePx g rnd k = \<lfloor>rnd k * real (width g)\<rfloor>"

definition samplePy :: "generator \<Rightarrow> (nat \<Rightarrow> real) \<Rightarrow> nat \<Rightarrow> int" where
  "samplePy g rnd k = \<lfloor>rnd (k + 1) * real (height g)\<rfloor>"

definition sampleIter :: "generator \<Rightarrow> string \<Rightarrow> (nat \<Rightarrow> real) \<Rightarrow> nat \<Rightarrow> nat" where
  "sampleIter g type rnd k =
     iterAt g type (planeX g (real_of_int (samplePx g rnd k)))
       (planeY g (real_of_int (samplePy g rnd k)))"

text \<open>The star pushed by an accepted attempt that starts at call \<open>k\<close>.\<close>

definition newStar :: "generator \<Rightarrow> (nat \<Rightarrow> real) \<Rightarrow> nat \<Rightarrow> star" where
  "newStar g rnd k =
     (let size = rnd (k + 2) * 1.4;
          brighterStar = (rnd (k + 3) > 0.6);
          glowSize = (if brighterStar then 6 else 4);
          glow = (rnd (k + 4) > 0.3)
      in \<lparr>star_x = samplePx g rnd k, star_y = samplePy g rnd k,
          star_radius = (if glow then size * glowSize * 1.2 else size * 2)\<rparr>)"

definition drawStars_attempt ::
  "generator \<Rightarrow> string \<Rightarrow> (nat \<Rightarrow> real) \<Rightarrow> star_loop \<Rightarrow> star_loop" where
  "drawStars_attempt g type rnd st =
     (let k = drawn st in
      if sampleIter g type rnd k = maxIter g then
        st\<lparr>stars := stars st @ [newStar g rnd k],
           starsPlotted := starsPlotted st + 1,
           attempts := attempts st + 1,
           drawn := k + 5\<rparr>
      else st\<lparr>attempts := attempts st + 1, drawn := k + 2\<rparr>)"

function drawStars_loop ::
  "generator \<Rightarrow> string \<Rightarrow> (nat \<Rightarrow> real) \<Rightarrow> star_loop \<Rightarrow> star_loop" where
  "drawStars_loop g type rnd st =
     (if starsPlotted st < maxStars \<and> attempts st < maxStars * 10
      then drawStars_loop g type rnd (drawStars_attempt g type rnd st)
      else st)"
  by pat_completeness auto
termination
  by (relation "measure (\<lambda>(g, type, rnd, st). maxStars * 10 - attempts st)")
    (auto simp: drawStars_attempt_def Let_def)

definition drawStars_run :: "generator \<Rightarrow> string \<Rightarrow> (nat \<Rightarrow> real) \<Rightarrow> star_loop" where
  "drawStars_run g type rnd =
     drawStars_loop g type rnd \<lparr>stars = [], starsPlotted = 0, attempts = 0, drawn = 0\<rparr>"

definition drawStarsInFractal :: "generator \<Rightarrow> string \<Rightarrow> (nat \<Rightarrow> real) \<Rightarrow> generator" where
  "drawStarsInFractal g type rnd = g\<lparr>starPositions := stars (drawStars_run g type rnd)\<rparr>"

section \<open>Fog overlay pass and final soft-fog pass\<close>

text \<open>
  The exclusion test that \<open>applyFogLayer\<close> and the last loop of \<open>render\<close> share, word for
  word:
  \<^verbatim>\<open>
  const pixelIndex = py * this.width + px;
  let skipFog = false;
  for (const star of this.starPositions) {
    const distance = Math.sqrt((px - star.x) ** 2 + (py - star.y) ** 2);
    if (distance <= star.radius) { skipFog = true; break; }
  }
  if (this.keepBlackAreasClear && !this.coloredAreas[pixelIndex]) {
    skipFog = true;
  }
  \<close>
  A read of \<open>this.coloredAreas\<close> past its end is \<open>undefined\<close>, which \<open>!\<close> turns into
  \<open>true\<close>.
\<close>

definition inStarDisk :: "star \<Rightarrow> nat \<Rightarrow> nat \<Rightarrow> bool" where
  "inStarDisk s px py =
     (let distance = sqrt ((real px - real_of_int (star_x s))\<^sup>2 +
                           (real py - real_of_int (star_y s))\<^sup>2)
      in distance \<le> star_radius s)"

definition coloredAt :: "bool list \<Rightarrow> nat \<Rightarrow> bool" where
  "coloredAt areas i = (i < length areas \<and> areas ! i)"

definition skipFog :: "generator \<Rightarrow> nat \<Rightarrow> nat \<Rightarrow> bool" where
  "skipFog g px py =
     (let pixelIndex = py * width g + px;
          skip = list_ex (\<lambda>s. inStarDisk s px py) (starPositions g)
      in if keepBlackAreasClear g \<and> \<not> coloredAt (coloredAreas g) pixelIndex then True
         else skip)"

text \<open>
  The layered noise of \<open>applyFogLayer\<close>:
  \<^verbatim>\<open>
  let noiseSum = 0;
  for (let layer = 0; layer < this.fogLayerCount; layer++) {
    const frequency = this.fogSize * Math.pow(2, layer);
    const amplitude = 1 / Math.pow(2, layer);
    noiseSum += this.noise2D(px * frequency, py * frequency) * amplitude;
  }
  const fogIntensity = (noiseSum + 1) / 2;
  \<close>
\<close>

definition applyFogLayer_noiseSum ::
  "(real \<Rightarrow> real \<Rightarrow> real) \<Rightarrow> real \<Rightarrow> nat \<Rightarrow> nat \<Rightarrow> nat \<Rightarrow> real" where
  "applyFogLayer_noiseSum noise fSize layers px py =
     fold (\<lambda>layer noiseSum.
             let frequency = fSize * 2 ^ layer; amplitude = 1 / 2 ^ layer
             in noiseSum + noise (real px * frequency) (real py * frequency) * amplitude)
       [0..<layers] 0"

definition applyFogLayer_fogIntensity ::
  "(real \<Rightarrow> real \<Rightarrow> real) \<Rightarrow> real \<Rightarrow> nat \<Rightarrow> nat \<Rightarrow> nat \<Rightarrow> real" where
  "applyFogLayer_fogIntensity noise fSize layers px py =
     (applyFogLayer_noiseSum noise fSize layers px py + 1) / 2"

text \<open>
  The body of the loops of \<open>applyFogLayer\<close>:
  \<^verbatim>\<open>
  if (skipFog) continue;
  ...
  const i = pixelIndex * 4;
  const baseColor = [data[i], data[i + 1], data[i + 2]];
  const fogColor = [
    Math.min(255, baseColor[0] + 40),
    Math.min(255, baseColor[1] + 40),
    Math.min(255, baseColor[2] + 60),
  ];
  const alpha = fogIntensity * this.fogDensity;
  data[i] = this.blend(data[i], fogColor[0], alpha);
  data[i + 1] = this.blend(data[i + 1], fogColor[1], alpha);
  data[i + 2] = this.blend(data[i + 2], fogColor[2], alpha);
  \<close>
\<close>

definition applyFogLayer_pixel :: "generator \<Rightarrow> nat \<Rightarrow> nat \<Rightarrow> nat list \<Rightarrow> nat list" where
  "applyFogLayer_pixel g px py data =
     (if skipFog g px py then data
      else
        let fogIntensity =
              applyFogLayer_fogIntensity (noise2D g) (fogSize g) (fogLayerCount g) px py;
            i = (py * width g + px) * 4;
            fogColor0 = min 255 (real (data ! i) + 40);
            fogColor1 = min 255 (real (data ! (i + 1)) + 40);
            fogColor2 = min 255 (real (data ! (i + 2)) + 60);
            alpha = fogIntensity * fogDensity g;
            data1 = blendInto data i fogColor0 alpha;
            data2 = blendInto data1 (i + 1) fogColor1 alpha;
            data3 = blendInto data2 (i + 2) fogColor2 alpha
        in data3)"

text \<open>
  \<open>applyFogLayer\<close>: the outer loop runs over \<open>px\<close>, the inner one over \<open>py\<close>. Its two
  guards \<open>if (!this.starPositions)\<close> and \<open>if (!this.coloredAreas)\<close> never fire: both fields
  are arrays from the constructor on.
\<close>

definition applyFogLayer :: "generator \<Rightarrow> generator" where
  "applyFogLayer g =
     g\<lparr>canvas := fold (\<lambda>px. fold (\<lambda>py. applyFogLayer_pixel g px py) [0..<height g])
                     [0..<width g] (canvas g)\<rparr>"

text \<open>
  The final soft-fog pass, the last loop of \<open>render\<close>:
  \<^verbatim>\<open>
  if (!skipFog) {
    const i = pixelIndex * 4;
    const noise = this.noise2D(px * 0.005, py * 0.005) * 0.5 + 0.5;
    const fogAmount = noise * 12;
    data[i] = Math.min(255, data[i] + fogAmount);
    data[i + 1] = Math.min(255, data[i + 1] + fogAmount);
    data[i + 2] = Math.min(255, data[i + 2] + fogAmount);
  }
  \<close>
\<close>

definition render_softFog_pixel :: "generator \<Rightarrow> nat \<Rightarrow> nat \<Rightarrow> nat list \<Rightarrow> nat list" where
  "render_softFog_pixel g px py data =
     (if \<not> skipFog g px py then
        let i = (py * width g + px) * 4;
            noise = noise2D g (real px * 0.005) (real py * 0.005) * 0.5 + 0.5;
            fogAmount = noise * 12;
            data1 = data[i := toUint8Clamp (min 255 (real (data ! i) + fogAmount))];
            data2 = data1[i + 1 := toUint8Clamp (min 255 (real (data1 ! (i + 1)) + fogAmount))];
            data3 = data2[i + 2 := toUint8Clamp (min 255 (real (data2 ! (i + 2)) + fogAmount))]
        in data3
      else data)"

definition render_softFog :: "generator \<Rightarrow> generator" where
  "render_softFog g =
     g\<lparr>canvas := fold (\<lambda>px. fold (\<lambda>py. render_softFog_pixel g px py) [0..<height g])
                     [0..<width g] (canvas g)\<rparr>"


section \<open>Degenerate coordinates: infinities and NaN\<close>

text \<open>
  A number of the program with the special values of IEEE-754: a finite number (a real,
  with exact arithmetic as before), plus or minus infinity, or NaN. The operations
  follow IEEE-754 on the special values: NaN is contagious, \<open>\<infinity> - \<infinity>\<close> and \<open>0 * \<infinity>\<close> are
  NaN, the sine of an infinity is NaN, and every comparison with NaN is false. Signed
  zeros are not distinguished: a division by zero is a division by \<open>+0\<close>.
\<close>

datatype jsnum = Fin real | PosInf | NegInf | NaN

fun js_neg :: "jsnum \<Rightarrow> jsnum" where
  "js_neg (Fin a) = Fin (- a)"
| "js_neg PosInf = NegInf"
| "js_neg NegInf = PosInf"
| "js_neg NaN = NaN"

fun js_add :: "jsnum \<Rightarrow> jsnum \<Rightarrow> jsnum" where
  "js_add NaN b = NaN"
| "js_add a NaN = NaN"
| "js_add (Fin a) (Fin b) = Fin (a + b)"
| "js_add (Fin a) b = b"
| "js_add a (Fin b) = a"
| "js_add PosInf PosInf = PosInf"
| "js_add NegInf NegInf = NegInf"
| "js_add PosInf NegInf = NaN"
| "js_add NegInf PosInf = NaN"

definition js_sub :: "jsnum \<Rightarrow> jsnum \<Rightarrow> jsnum" where
  "js_sub a b = js_add a (js_neg b)"

text \<open>The sign of a number that is not NaN, as \<open>-1\<close>, \<open>0\<close> or \<open>1\<close>.\<close>

fun js_sign :: "jsnum \<Rightarrow> int" where
  "js_sign (Fin a) = (if a < 0 then - 1 else if a = 0 then 0 else 1)"
| "js_sign PosInf = 1"
| "js_sign NegInf = - 1"
| "js_sign NaN = 0"

definition signedInf :: "int \<Rightarrow> jsnum" where
  "signedInf sg = (if sg = 0 then NaN else if sg > 0 then PosInf else NegInf)"

fun js_mul :: "jsnum \<Rightarrow> jsnum \<Rightarrow> jsnum" where
  "js_mul NaN b = NaN"
| "js_mul a NaN = NaN"
| "js_mul (Fin a) (Fin b) = Fin (a * b)"
| "js_mul a b = signedInf (js_sign a * js_sign b)"

fun js_div :: "jsnum \<Rightarrow> jsnum \<Rightarrow> jsnum" where
  "js_div NaN b = NaN"
| "js_div a NaN = NaN"
| "js_div (Fin a) (Fin b) = (if b = 0 then signedInf (js_sign (Fin a)) else Fin (a / b))"
| "js_div (Fin a) b = Fin 0"
| "js_div a (Fin b) = signedInf (js_sign a * (if b < 0 then - 1 else 1))"
| "js_div a b = NaN"

fun js_sin :: "jsnum \<Rightarrow> jsnum" where
  "js_sin (Fin a) = Fin (sin a)"
| "js_sin a = NaN"

fun js_less :: "jsnum \<Rightarrow> jsnum \<Rightarrow> bool" where
  "js_less NaN b = False"
| "js_less a NaN = False"
| "js_less (Fin a) (Fin b) = (a < b)"
| "js_less NegInf NegInf = False"
| "js_less NegInf b = True"
| "js_less a PosInf = (a \<noteq> PosInf)"
| "js_less a b = False"

fun finite_num :: "jsnum \<Rightarrow> bool" where
  "finite_num (Fin a) = True"
| "finite_num a = False"

text \<open>
  The two loops of the escape-time engine once more, now on these numbers: the same
  statements in the same order, each operator replaced by its IEEE-754 counterpart.
\<close>

function mandelbrot_js_loop ::
  "nat \<Rightarrow> jsnum \<Rightarrow> jsnum \<Rightarrow> jsnum \<Rightarrow> jsnum \<Rightarrow> nat \<Rightarrow> nat" where
  "mandelbrot_js_loop cap x y zx zy iter =
     (if js_less (js_add (js_mul zx zx) (js_mul zy zy)) (Fin 4) \<and> iter < cap then
        let xtemp = js_add (js_sub (js_mul zx zx) (js_mul zy zy)) x;
            zy1 = js_add (js_mul (js_mul (Fin 2) zx) zy) y;
            zx1 = xtemp;
            zx2 = js_add zx1 (js_mul (Fin (5 / 1000)) (js_sin (js_mul zy1 (Fin 3))));
            zy2 = js_add zy1 (js_mul (Fin (5 / 1000)) (js_sin (js_mul zx2 (Fin 2))))
        in mandelbrot_js_loop cap x y zx2 zy2 (iter + 1)
      else iter)"
  by pat_completeness auto
termination
  by (relation "measure (\<lambda>(cap, x, y, zx, zy, iter). cap - iter)") auto

definition mandelbrot_js :: "nat \<Rightarrow> jsnum \<Rightarrow> jsnum \<Rightarrow> nat" where
  "mandelbrot_js cap x y = mandelbrot_js_loop cap x y (Fin 0) (Fin 0) 0"

function julia_js_loop :: "nat \<Rightarrow> jsnum \<Rightarrow> jsnum \<Rightarrow> jsnum \<Rightarrow> jsnum \<Rightarrow> nat \<Rightarrow> nat" where
  "julia_js_loop cap cx cy zx zy iter =
     (if js_less (js_add (js_mul zx zx) (js_mul zy zy)) (Fin 4) \<and> iter < cap then
        let xtemp = js_add (js_sub (js_mul zx zx) (js_mul zy zy)) cx;
            zy1 = js_add (js_mul (js_mul (Fin 2) zx) zy) cy;
            zx1 = xtemp
        in julia_js_loop cap cx cy zx1 zy1 (iter + 1)
      else iter)"
  by pat_completeness auto
termination
  by (relation "measure (\<lambda>(cap, cx, cy, zx, zy, iter). cap - iter)") auto

definition julia_js :: "nat \<Rightarrow> jsnum \<Rightarrow> jsnum \<Rightarrow> jsnum \<Rightarrow> jsnum \<Rightarrow> nat" where
  "julia_js cap x y cx cy = julia_js_loop cap cx cy x y 0"

text \<open>
  The mapping from a pixel to the plane on these numbers:
  \<open>(p - extent / 2) / zoom + offset\<close>, for a pixel coordinate \<open>p\<close> and the width or
  height \<open>extent\<close> of the canvas.
\<close>

definition plane_js :: "nat \<Rightarrow> nat \<Rightarrow> jsnum \<Rightarrow> jsnum \<Rightarrow> jsnum" where
  "plane_js p extent zm offset =
     js_add (js_div (js_sub (Fin (real p)) (js_div (Fin (real extent)) (Fin 2))) zm) offset"


section \<open>A small generator\<close>

text \<open>
  A generator on a canvas of two by two pixels, every byte of the canvas 10, with one
  recorded star at pixel \<open>(0, 0)\<close> of radius 1, a constant noise function and the Julia
  constant \<open>(0, 0)\<close>. At a zoom of \<open>1/4\<close> pixel \<open>(1, 1)\<close> is the origin of the plane and
  pixel \<open>(0, 0)\<close> is the point \<open>(-4, -4)\<close>. The theorems on the pixel passes are
  instantiated on it.
\<close>

definition example_generator :: generator where
  "example_generator =
     \<lparr>width = 2, height = 2, maxIter = 3, zoom = 1 / 4, offsetX = 0, offsetY = 0,
      baseHue = 200, saturation = 70, lightness = 30, patternStrength = 20,
      juliaParams_cx = 0, juliaParams_cy = 0, noise2D = (\<lambda>u v. 0),
      minNoise = 0.2, maxNoise = 0.8, fogDensity = 0.4, fogSize = 0.01, fogLayerCount = 5,
      starClarity = 1, keepBlackAreasClear = False,
      starPositions = [\<lparr>star_x = 0, star_y = 0, star_radius = 1\<rparr>],
      coloredAreas = replicate 4 True,
      canvas = replicate 16 10\<rparr>"

section \<open>The invariant of the star placement loop\<close>

text \<open>
  What every state of the loop of \<open>drawStarsInFractal\<close> satisfies: the counters are within
  their bounds, \<open>starsPlotted\<close> counts the recorded stars, and every recorded star is the
  star of an attempt whose iteration count was the cap.
\<close>

definition star_loop_inv :: "generator \<Rightarrow> string \<Rightarrow> (nat \<Rightarrow> real) \<Rightarrow> star_loop \<Rightarrow> bool" where
  "star_loop_inv g type rnd st \<longleftrightarrow>
     starsPlotted st \<le> maxStars \<and> attempts st \<le> maxStars * 10 \<and>
     length (stars st) = starsPlotted st \<and>
     (\<forall>s \<in> set (stars st). \<exists>k. sampleIter g type rnd k = maxIter g \<and> s = newStar g rnd k)"

section \<open>The recurrences in the words of the specification\<close>

text \<open>
  The specification describes both recurrences as the iteration of a step on the pair
  \<open>(zx, zy)\<close> while \<open>zx\<^sup>2 + zy\<^sup>2 < 4\<close> and the count is below the cap. These definitions
  follow its words, to be compared with the loops of the source: the quadratic step
  \<open>zx' = zx\<^sup>2 - zy\<^sup>2 + cx\<close>, \<open>zy' = 2 zx zy + cy\<close>; the perturbation
  \<open>zx += eps sin(3 zy)\<close> followed by \<open>zy += eps sin(2 zx)\<close>, the second reading the
  updated \<open>zx\<close>; and the number of iterations completed before the orbit leaves the
  disk or the cap is reached.
\<close>

definition in_radius :: "real \<times> real \<Rightarrow> bool" where
  "in_radius z = ((fst z)\<^sup>2 + (snd z)\<^sup>2 < 4)"

definition quadratic_step :: "real \<Rightarrow> real \<Rightarrow> real \<times> real \<Rightarrow> real \<times> real" where
  "quadratic_step cx cy z = ((fst z)\<^sup>2 - (snd z)\<^sup>2 + cx, 2 * fst z * snd z + cy)"

definition perturb :: "real \<Rightarrow> real \<times> real \<Rightarrow> real \<times> real" where
  "perturb eps z =
     (let zx = fst z + eps * sin (3 * snd z);
          zy = snd z + eps * sin (2 * zx)
      in (zx, zy))"

definition mandelbrot_step :: "real \<Rightarrow> real \<Rightarrow> real \<Rightarrow> real \<times> real \<Rightarrow> real \<times> real" where
  "mandelbrot_step eps x y z = perturb eps (quadratic_step x y z)"

primrec escape_count :: "(real \<times> real \<Rightarrow> real \<times> real) \<Rightarrow> nat \<Rightarrow> real \<times> real \<Rightarrow> nat" where
  "escape_count f 0 z = 0"
| "escape_count f (Suc n) z = (if in_radius z then Suc (escape_count f n (f z)) else 0)"


section \<open>The escape-time engine meets its description\<close>

declare mandelbrot_loop.simps [simp del]
declare julia_loop.simps [simp del]
declare mandelbrot_js_loop.simps [simp del]
declare julia_js_loop.simps [simp del]
declare drawStars_loop.simps [simp del]

lemma escape_count_le: "escape_count f n z \<le> n"
  by (induction n arbitrary: z) auto

lemma escape_count_inside: "k < escape_count f n z \<Longrightarrow> in_radius ((f ^^ k) z)"
proof (induction n arbitrary: z k)
  case 0
  then show ?case by simp
next
  case (Suc n)
  show ?case
  proof (cases k)
    case 0
    with Suc.prems show ?thesis by (simp split: if_splits)
  next
    case (Suc j)
    with Suc.prems have "in_radius z" and "j < escape_count f n (f z)"
      by (simp_all split: if_splits)
    then have "in_radius ((f ^^ j) (f z))" using Suc.IH by blast
    then show ?thesis using Suc by (simp add: funpow_swap1)
  qed
qed

lemma escape_count_escaped:
  "escape_count f n z < n \<Longrightarrow> \<not> in_radius ((f ^^ escape_count f n z) z)"
proof (induction n arbitrary: z)
  case 0
  then show ?case by simp
next
  case (Suc n)
  show ?case
  proof (cases "in_radius z")
    case True
    with Suc.prems have "escape_count f n (f z) < n" by simp
    then have "\<not> in_radius ((f ^^ escape_count f n (f z)) (f z))" by (rule Suc.IH)
    with True show ?thesis by (simp add: funpow_swap1)
  next
    case False
    then show ?thesis by simp
  qed
qed

lemma escape_count_cap_iff:
  "escape_count f n z = n \<longleftrightarrow> (\<forall>k<n. in_radius ((f ^^ k) z))"
proof
  assume "escape_count f n z = n"
  then show "\<forall>k<n. in_radius ((f ^^ k) z)"
    using escape_count_inside [of _ f n z] by simp
next
  assume inside: "\<forall>k<n. in_radius ((f ^^ k) z)"
  show "escape_count f n z = n"
  proof (rule ccontr)
    assume "escape_count f n z \<noteq> n"
    with escape_count_le [of f n z] have less: "escape_count f n z < n" by simp
    from escape_count_escaped [OF less] inside less show False by blast
  qed
qed

lemma mandelbrot_loop_count:
  "iter \<le> cap \<Longrightarrow>
   mandelbrot_loop eps cap x y zx zy iter =
   iter + escape_count (mandelbrot_step eps x y) (cap - iter) (zx, zy)"
proof (induction eps cap x y zx zy iter rule: mandelbrot_loop.induct)
  case (1 eps cap x y zx zy iter)
  define zx2 where "zx2 = zx * zx - zy * zy + x + eps * sin ((2 * zx * zy + y) * 3)"
  define zy2 where "zy2 = 2 * zx * zy + y + eps * sin (zx2 * 2)"
  have step: "mandelbrot_step eps x y (zx, zy) = (zx2, zy2)"
    by (simp add: mandelbrot_step_def perturb_def quadratic_step_def Let_def
        power2_eq_square zx2_def zy2_def mult.commute)
  have inr: "in_radius (zx, zy) \<longleftrightarrow> zx * zx + zy * zy < 4"
    by (simp add: in_radius_def power2_eq_square)
  show ?case
  proof (cases "zx * zx + zy * zy < 4 \<and> iter < cap")
    case True
    then have d: "cap - iter = Suc (cap - (iter + 1))" by arith
    from True have le: "iter + 1 \<le> cap" by simp
    have "mandelbrot_loop eps cap x y zx zy iter =
          mandelbrot_loop eps cap x y zx2 zy2 (iter + 1)"
      using True by (subst mandelbrot_loop.simps) (simp add: Let_def zx2_def zy2_def)
    also have "\<dots> = (iter + 1) +
        escape_count (mandelbrot_step eps x y) (cap - (iter + 1)) (zx2, zy2)"
      using "1.IH" [OF True refl refl refl refl refl le] by (simp add: zx2_def zy2_def)
    also have "\<dots> = iter + escape_count (mandelbrot_step eps x y) (cap - iter) (zx, zy)"
      using True by (subst d) (simp add: inr step)
    finally show ?thesis .
  next
    case False
    have "escape_count (mandelbrot_step eps x y) (cap - iter) (zx, zy) = 0"
    proof (cases "iter < cap")
      case True
      then have "cap - iter = Suc (cap - (iter + 1))" by arith
      moreover from True False have "\<not> in_radius (zx, zy)" by (simp add: inr)
      ultimately show ?thesis by simp
    next
      case False
      with "1.prems" have "cap - iter = 0" by simp
      then show ?thesis by simp
    qed
    with False show ?thesis by (subst mandelbrot_loop.simps) auto
  qed
qed

lemma julia_loop_count:
  "iter \<le> cap \<Longrightarrow>
   julia_loop cap cx cy zx zy iter =
   iter + escape_count (quadratic_step cx cy) (cap - iter) (zx, zy)"
proof (induction cap cx cy zx zy iter rule: julia_loop.induct)
  case (1 cap cx cy zx zy iter)
  define zx1 where "zx1 = zx * zx - zy * zy + cx"
  define zy1 where "zy1 = 2 * zx * zy + cy"
  have step: "quadratic_step cx cy (zx, zy) = (zx1, zy1)"
    by (simp add: quadratic_step_def power2_eq_square zx1_def zy1_def)
  have inr: "in_radius (zx, zy) \<longleftrightarrow> zx * zx + zy * zy < 4"
    by (simp add: in_radius_def power2_eq_square)
  show ?case
  proof (cases "zx * zx + zy * zy < 4 \<and> iter < cap")
    case True
    then have d: "cap - iter = Suc (cap - (iter + 1))" by arith
    from True have le: "iter + 1 \<le> cap" by simp
    have "julia_loop cap cx cy zx zy iter = julia_loop cap cx cy zx1 zy1 (iter + 1)"
      using True by (subst julia_loop.simps) (simp add: Let_def zx1_def zy1_def)
    also have "\<dots> = (iter + 1) +
        escape_count (quadratic_step cx cy) (cap - (iter + 1)) (zx1, zy1)"
      using "1.IH" [OF True refl refl refl le] by (simp add: zx1_def zy1_def)
    also have "\<dots> = iter + escape_count (quadratic_step cx cy) (cap - iter) (zx, zy)"
      using True by (subst d) (simp add: inr step)
    finally show ?thesis .
  next
    case False
    have "escape_count (quadratic_step cx cy) (cap - iter) (zx, zy) = 0"
    proof (cases "iter < cap")
      case True
      then have "cap - iter = Suc (cap - (iter + 1))" by arith
      moreover from True False have "\<not> in_radius (zx, zy)" by (simp add: inr)
      ultimately show ?thesis by simp
    next
      case False
      with "1.prems" have "cap - iter = 0" by simp
      then show ?thesis by simp
    qed
    with False show ?thesis by (subst julia_loop.simps) auto
  qed
qed


lemma escape_count_outside: "\<not> in_radius z \<Longrightarrow> escape_count f n z = 0"
  by (cases n) simp_all

lemma mandelbrot_eps_count:
  "mandelbrot_eps eps cap x y = escape_count (mandelbrot_step eps x y) cap (0, 0)"
  using mandelbrot_loop_count [of 0 cap eps x y 0 0] by (simp add: mandelbrot_eps_def)

lemma julia_count:
  "julia cap x y cx cy = escape_count (quadratic_step cx cy) cap (x, y)"
  using julia_loop_count [of 0 cap cx cy x y] by (simp add: julia_def)

text \<open>
  Claim C1. \<open>mandelbrot\<close> iterates, from \<open>(0, 0)\<close>, the quadratic step with constant
  \<open>(x, y)\<close> followed by the perturbation \<open>zx += 0.005 sin(3 zy)\<close>, \<open>zy += 0.005 sin(2 zx)\<close>
  (each reading the values already updated); \<open>julia\<close> iterates, from \<open>(x, y)\<close>, the
  quadratic step with constant \<open>(cx, cy)\<close> and no perturbation. Each returns the number
  of completed iterations: the result is at most the cap, every orbit point before it
  satisfies \<open>zx\<^sup>2 + zy\<^sup>2 < 4\<close>, a result below the cap is the index of an orbit point that
  fails the test, and an orbit that never escapes gives the cap.
\<close>

theorem escape_time_recurrences:
  "mandelbrot_step (5 / 1000) x y (zx, zy) =
     (let zx' = zx\<^sup>2 - zy\<^sup>2 + x; zy' = 2 * zx * zy + y;
          zx'' = zx' + 0.005 * sin (3 * zy'); zy'' = zy' + 0.005 * sin (2 * zx'')
      in (zx'', zy'')) \<and>
   quadratic_step cx cy (zx, zy) = (zx\<^sup>2 - zy\<^sup>2 + cx, 2 * zx * zy + cy) \<and>
   mandelbrot cap x y \<le> cap \<and>
   (\<forall>k < mandelbrot cap x y. in_radius ((mandelbrot_step (5 / 1000) x y ^^ k) (0, 0))) \<and>
   (mandelbrot cap x y < cap \<longrightarrow>
      \<not> in_radius ((mandelbrot_step (5 / 1000) x y ^^ mandelbrot cap x y) (0, 0))) \<and>
   ((\<forall>k. in_radius ((mandelbrot_step (5 / 1000) x y ^^ k) (0, 0))) \<longrightarrow>
      mandelbrot cap x y = cap) \<and>
   julia cap x y cx cy \<le> cap \<and>
   (\<forall>k < julia cap x y cx cy. in_radius ((quadratic_step cx cy ^^ k) (x, y))) \<and>
   (julia cap x y cx cy < cap \<longrightarrow>
      \<not> in_radius ((quadratic_step cx cy ^^ julia cap x y cx cy) (x, y))) \<and>
   ((\<forall>k. in_radius ((quadratic_step cx cy ^^ k) (x, y))) \<longrightarrow> julia cap x y cx cy = cap)"
proof -
  have m: "mandelbrot cap x y = escape_count (mandelbrot_step (5 / 1000) x y) cap (0, 0)"
    by (simp add: mandelbrot_def mandelbrot_eps_count)
  have j: "julia cap x y cx cy = escape_count (quadratic_step cx cy) cap (x, y)"
    by (rule julia_count)
  have s1: "mandelbrot_step (5 / 1000) x y (zx, zy) =
     (let zx' = zx\<^sup>2 - zy\<^sup>2 + x; zy' = 2 * zx * zy + y;
          zx'' = zx' + 0.005 * sin (3 * zy'); zy'' = zy' + 0.005 * sin (2 * zx'')
      in (zx'', zy''))"
    by (simp add: mandelbrot_step_def perturb_def quadratic_step_def Let_def)
  have s2: "quadratic_step cx cy (zx, zy) = (zx\<^sup>2 - zy\<^sup>2 + cx, 2 * zx * zy + cy)"
    by (simp add: quadratic_step_def)
  have m1: "mandelbrot cap x y \<le> cap" unfolding m by (rule escape_count_le)
  have m2: "\<forall>k < mandelbrot cap x y. in_radius ((mandelbrot_step (5 / 1000) x y ^^ k) (0, 0))"
    unfolding m by (blast intro: escape_count_inside)
  have m3: "mandelbrot cap x y < cap \<longrightarrow>
      \<not> in_radius ((mandelbrot_step (5 / 1000) x y ^^ mandelbrot cap x y) (0, 0))"
    unfolding m by (blast dest: escape_count_escaped)
  have m4: "(\<forall>k. in_radius ((mandelbrot_step (5 / 1000) x y ^^ k) (0, 0))) \<longrightarrow>
      mandelbrot cap x y = cap"
    unfolding m by (simp add: escape_count_cap_iff)
  have j1: "julia cap x y cx cy \<le> cap" unfolding j by (rule escape_count_le)
  have j2: "\<forall>k < julia cap x y cx cy. in_radius ((quadratic_step cx cy ^^ k) (x, y))"
    unfolding j by (blast intro: escape_count_inside)
  have j3: "julia cap x y cx cy < cap \<longrightarrow>
      \<not> in_radius ((quadratic_step cx cy ^^ julia cap x y cx cy) (x, y))"
    unfolding j by (blast dest: escape_count_escaped)
  have j4: "(\<forall>k. in_radius ((quadratic_step cx cy ^^ k) (x, y))) \<longrightarrow> julia cap x y cx cy = cap"
    unfolding j by (simp add: escape_count_cap_iff)
  from s1 s2 m1 m2 m3 m4 j1 j2 j3 j4 show ?thesis by blast
qed

lemma mandelbrot_2_2_0: "mandelbrot 2 2 0 = 1"
  by (simp add: mandelbrot_def mandelbrot_eps_def mandelbrot_loop.simps Let_def)

lemma julia_2_2_0: "julia 2 2 0 0 0 = 0"
  by (simp add: julia_def julia_loop.simps)

theorem escape_time_recurrences_witness:
  "mandelbrot 2 2 0 = 1 \<and>
   in_radius ((mandelbrot_step (5 / 1000) 2 0 ^^ 0) (0, 0)) \<and>
   \<not> in_radius ((mandelbrot_step (5 / 1000) 2 0 ^^ 1) (0, 0)) \<and>
   julia 2 2 0 0 0 = 0 \<and>
   \<not> in_radius ((quadratic_step 0 0 ^^ 0) (2, 0))"
  using escape_time_recurrences
      [where x = 2 and y = 0 and cap = 2 and cx = 0 and cy = 0 and zx = 0 and zy = 0]
    mandelbrot_2_2_0 julia_2_2_0
  by auto

text \<open>
  Claim C2 as stated fails for \<open>mandelbrot\<close>: its loop tests \<open>z\<^sub>0 = (0, 0)\<close>, not the
  coordinate, so at \<open>(2, 0)\<close>, which has \<open>x\<^sup>2 + y\<^sup>2 \<ge> 4\<close>, the first iteration completes and the
  result is 1, with the perturbation set to zero and with the source's perturbation alike.
\<close>

theorem escape_at_entry_counterexample:
  "(2::real)\<^sup>2 + 0\<^sup>2 \<ge> 4 \<and> mandelbrot_eps 0 5 2 0 = 1 \<and> mandelbrot 5 2 0 = 1"
  by (simp add: mandelbrot_def mandelbrot_eps_def mandelbrot_loop.simps Let_def)

text \<open>
  Claim C2, amended. For \<open>x\<^sup>2 + y\<^sup>2 \<ge> 4\<close>, \<open>julia\<close> returns 0, and \<open>mandelbrot\<close> with the
  perturbation set to zero and a cap of at least 1 returns 1. For every coordinate and
  every perturbation amplitude both results lie in \<open>[0, cap]\<close>, and the result is the cap
  exactly when no orbit point of index below the cap has escaped.
\<close>

theorem escape_at_entry:
  "(x\<^sup>2 + y\<^sup>2 \<ge> 4 \<longrightarrow> julia cap x y cx cy = 0) \<and>
   (x\<^sup>2 + y\<^sup>2 \<ge> 4 \<and> 1 \<le> cap \<longrightarrow> mandelbrot_eps 0 cap x y = 1) \<and>
   mandelbrot_eps eps cap x y \<le> cap \<and>
   julia cap x y cx cy \<le> cap \<and>
   (mandelbrot_eps eps cap x y = cap \<longleftrightarrow>
      (\<forall>k<cap. in_radius ((mandelbrot_step eps x y ^^ k) (0, 0)))) \<and>
   (julia cap x y cx cy = cap \<longleftrightarrow>
      (\<forall>k<cap. in_radius ((quadratic_step cx cy ^^ k) (x, y))))"
proof -
  have a: "julia cap x y cx cy = 0" if "x\<^sup>2 + y\<^sup>2 \<ge> 4"
    using that by (simp add: julia_count escape_count_outside in_radius_def)
  have b: "mandelbrot_eps 0 cap x y = 1" if out: "x\<^sup>2 + y\<^sup>2 \<ge> 4" and cap: "1 \<le> cap"
  proof -
    from cap obtain n where n: "cap = Suc n" by (cases cap) simp_all
    have z1: "mandelbrot_step 0 x y (0, 0) = (x, y)"
      by (simp add: mandelbrot_step_def perturb_def quadratic_step_def)
    have "\<not> in_radius (x, y)" using out by (simp add: in_radius_def)
    then have "escape_count (mandelbrot_step 0 x y) n (x, y) = 0"
      by (rule escape_count_outside)
    then show ?thesis
      by (simp add: mandelbrot_eps_count n z1 in_radius_def)
  qed
  have c: "mandelbrot_eps eps cap x y \<le> cap"
    by (simp add: mandelbrot_eps_count escape_count_le)
  have d: "julia cap x y cx cy \<le> cap"
    by (simp add: julia_count escape_count_le)
  have e: "mandelbrot_eps eps cap x y = cap \<longleftrightarrow>
      (\<forall>k<cap. in_radius ((mandelbrot_step eps x y ^^ k) (0, 0)))"
    by (simp add: mandelbrot_eps_count escape_count_cap_iff)
  have f: "julia cap x y cx cy = cap \<longleftrightarrow>
      (\<forall>k<cap. in_radius ((quadratic_step cx cy ^^ k) (x, y)))"
    by (simp add: julia_count escape_count_cap_iff)
  from a b c d e f show ?thesis by blast
qed

theorem escape_at_entry_witness:
  "(2::real)\<^sup>2 + 0\<^sup>2 \<ge> 4 \<and> julia 5 2 0 0 0 = 0 \<and> mandelbrot_eps 0 5 2 0 = 1 \<and>
   mandelbrot_eps 0 1 0 0 = 1 \<and> in_radius ((mandelbrot_step 0 0 0 ^^ 0) (0, 0))"
  using escape_at_entry [where x = 2 and y = 0 and cap = 5 and cx = 0 and cy = 0 and eps = 0]
    escape_at_entry [where x = 0 and y = 0 and cap = 1 and cx = 0 and cy = 0 and eps = 0]
  by (simp add: in_radius_def)


section \<open>Colour conversion and blending\<close>

lemma hue2rgb_zero: "hue2rgb 0 0 t = 0"
  by (simp add: hue2rgb_def Let_def)

text \<open>
  Claim C7. At lightness 0, \<open>hslToRgb\<close> returns black for every hue and saturation; at
  saturation 0 it returns the gray whose three channels are \<open>l / 100 * 255\<close> rounded to
  the nearest integer, for every hue and lightness.
\<close>

theorem hslToRgb_black_and_gray:
  "hslToRgb h s 0 = (0, 0, 0) \<and>
   hslToRgb h 0 l = (round (l / 100 * 255), round (l / 100 * 255), round (l / 100 * 255))"
proof
  show "hslToRgb h s 0 = (0, 0, 0)"
    by (simp add: hslToRgb_def Let_def hue2rgb_zero Math_round_def)
  show "hslToRgb h 0 l = (round (l / 100 * 255), round (l / 100 * 255), round (l / 100 * 255))"
    by (simp add: hslToRgb_def Let_def Math_round_def round_def)
qed

text \<open>
  Rounding at a known exponent, and the doubles 0, 1, 3 and the double nearest to
  \<open>0.002\<close>, which is \<open>1152921504606847 / 2 ^ 59\<close>. The four roundings of
  \<open>3 * (1 - 0.002) + 3 * 0.002\<close> follow.
\<close>

lemma double_exponent_eq:
  assumes "2 powi k \<le> \<bar>x\<bar>" "\<bar>x\<bar> < 2 powi (k + 1)"
  shows "double_exponent x = k"
proof -
  have "0 < (2::real) powi k" by simp
  with assms(1) have pos: "0 < \<bar>x\<bar>" by linarith
  have a: "(2::real) powr real_of_int k = 2 powi k"
    by (simp add: powr_real_of_int')
  have b: "(2::real) powr (real_of_int k + 1) = 2 powi (k + 1)"
    using powr_real_of_int' [of "2::real" "k + 1"] by simp
  have "(2::real) powr real_of_int k \<le> \<bar>x\<bar> \<and> \<bar>x\<bar> < 2 powr (real_of_int k + 1)"
    unfolding a b using assms by simp
  then show ?thesis
    unfolding double_exponent_def using pos by (simp add: floor_log_eq_powr_iff)
qed

lemma to_double_at:
  assumes "2 powi k \<le> \<bar>x\<bar>" "\<bar>x\<bar> < 2 powi (k + 1)"
  shows "to_double x = round_at k x"
proof -
  have "0 < (2::real) powi k" by simp
  with assms(1) have "0 < \<bar>x\<bar>" by linarith
  then have "x \<noteq> 0" by simp
  then show ?thesis by (simp add: to_double_def double_exponent_eq [OF assms])
qed

lemma to_double_0: "to_double 0 = 0"
  by (simp add: to_double_def)

lemma to_double_1: "to_double 1 = 1"
  using to_double_at [of 0 1]
  by (simp add: round_at_def roundHalfEven_def power_int_minus)


lemma is_double_3: "is_double 3"
  using to_double_at [of 1 3]
  by (simp add: is_double_def round_at_def roundHalfEven_def power_int_minus)

lemma is_double_alpha: "is_double (1152921504606847 / 576460752303423488)"
  using to_double_at [of "- 9" "1152921504606847 / 576460752303423488"]
  by (simp add: is_double_def round_at_def roundHalfEven_def power_int_minus)

lemma blend_rounding_step1:
  "to_double (1 - 1152921504606847 / 576460752303423488) =
   4494592428115755 / 4503599627370496"
  using to_double_at [of "- 1" "1 - 1152921504606847 / 576460752303423488"]
  by (simp add: round_at_def roundHalfEven_def power_int_minus)

lemma blend_rounding_step2:
  "to_double (3 * (4494592428115755 / 4503599627370496)) =
   105342010033963 / 35184372088832"
  using to_double_at [of 1 "3 * (4494592428115755 / 4503599627370496)"]
  by (simp add: round_at_def roundHalfEven_def power_int_minus)

lemma blend_rounding_step3:
  "to_double (3 * (1152921504606847 / 576460752303423488)) =
   3458764513820541 / 576460752303423488"
  using to_double_at [of "- 8" "3 * (1152921504606847 / 576460752303423488)"]
  by (simp add: round_at_def roundHalfEven_def power_int_minus)

lemma blend_rounding_step4:
  "to_double (105342010033963 / 35184372088832 + 3458764513820541 / 576460752303423488) =
   6755399441055743 / 2251799813685248"
  using to_double_at [of 1 "105342010033963 / 35184372088832 + 3458764513820541 / 576460752303423488"]
  by (simp add: round_at_def roundHalfEven_def power_int_minus)

text \<open>
  Claim C8 as stated fails on doubles: \<open>blend(3, 3, 0.002)\<close> is
  \<open>6755399441055743 / 2 ^ 51\<close>, the double below 3 (printed \<open>2.9999999999999996\<close>), not 3.
\<close>

theorem blend_rounding_counterexample:
  "is_double 3 \<and> is_double (1152921504606847 / 576460752303423488) \<and>
   blend_double 3 3 (1152921504606847 / 576460752303423488) =
     6755399441055743 / 2251799813685248 \<and>
   blend_double 3 3 (1152921504606847 / 576460752303423488) \<noteq> 3"
proof -
  have "blend_double 3 3 (1152921504606847 / 576460752303423488) =
        6755399441055743 / 2251799813685248"
    unfolding blend_double_def blend_rounding_step1 blend_rounding_step2
      blend_rounding_step3 blend_rounding_step4 by (rule refl)
  then show ?thesis using is_double_3 is_double_alpha by simp
qed

text \<open>
  Claim C8, amended. \<open>blend bg fg alpha\<close> is \<open>bg * (1 - alpha) + fg * alpha\<close>, not clamped (an
  alpha of 2 takes it to 510). An alpha of 0 gives the background and an alpha of 1 the
  foreground, in exact arithmetic and in double arithmetic alike. Blending a value with
  itself gives it back for every alpha in exact arithmetic.
\<close>

theorem blend_identities:
  "blend bg fg alpha = bg * (1 - alpha) + fg * alpha \<and>
   blend bg fg 0 = bg \<and>
   blend bg fg 1 = fg \<and>
   blend bg bg alpha = bg \<and>
   blend 0 255 2 = 510 \<and>
   (is_double bg \<longrightarrow> blend_double bg fg 0 = bg) \<and>
   (is_double fg \<longrightarrow> blend_double bg fg 1 = fg)"
  by (simp add: blend_def algebra_simps blend_double_def to_double_0 to_double_1 is_double_def)

theorem blend_identities_witness:
  "is_double 3 \<and> blend_double 3 200 0 = 3 \<and> blend_double 200 3 1 = 3 \<and> blend 3 3 (2 / 1000) = 3"
  using blend_identities [of 3 200 0] blend_identities [of 200 3 1]
    blend_identities [of 3 3 "2 / 1000"] is_double_3
  by simp


section \<open>Layered noise\<close>

lemma upt_0_2: "[0..<2] = [0, 1]"
  by (simp add: upt_rec)

lemma upt_0_3: "[0..<3] = [0, 1, 2]"
  by (simp add: upt_rec)

text \<open>
  Claim C10. With noise samples in \<open>[-1, 1]\<close>, the fog modulation of the colouring pass
  lies in \<open>[0, 44/45]\<close>, so below 1: the three rescaled samples weigh \<open>1\<close>, \<open>1/2\<close> and
  \<open>1/3\<close>, their sum is at most \<open>11/6\<close>, and the divisor is \<open>1.875\<close>.
\<close>

theorem drawFractal_fogMod_range:
  assumes "\<forall>u v. - 1 \<le> noise u v \<and> noise u v \<le> 1"
  shows "0 \<le> drawFractal_fogMod noise px py \<and>
         drawFractal_fogMod noise px py \<le> 44 / 45 \<and>
         drawFractal_fogMod noise px py < 1 \<and>
         drawFractal_fogMod noise px py * 1.875 \<le> 11 / 6"
proof -
  define n0 where "n0 = noise (real px * 0.03 * (0.01 * 2 ^ 0)) (real py * 0.03 * (0.01 * 2 ^ 0))"
  define n1 where "n1 = noise (real px * 0.03 * (0.01 * 2 ^ 1)) (real py * 0.03 * (0.01 * 2 ^ 1))"
  define n2 where "n2 = noise (real px * 0.03 * (0.01 * 2 ^ 2)) (real py * 0.03 * (0.01 * 2 ^ 2))"
  have eq: "drawFractal_fogMod noise px py =
      ((n0 * 0.5 + 0.5) / 1 + (n1 * 0.5 + 0.5) / 2 + (n2 * 0.5 + 0.5) / 3) / 1.875"
    by (simp add: drawFractal_fogMod_def Let_def upt_0_3 n0_def n1_def n2_def)
  from assms have b: "- 1 \<le> n0" "n0 \<le> 1" "- 1 \<le> n1" "n1 \<le> 1" "- 1 \<le> n2" "n2 \<le> 1"
    by (simp_all add: n0_def n1_def n2_def)
  from b show ?thesis unfolding eq by (simp add: field_simps)
qed

text \<open>Both ends of the interval are reached, by the constant noise 1 and the constant noise -1.\<close>

theorem drawFractal_fogMod_range_witness:
  "(\<forall>u v. - 1 \<le> (1::real) \<and> (1::real) \<le> 1) \<and>
   drawFractal_fogMod (\<lambda>u v. 1) 3 4 = 44 / 45 \<and>
   drawFractal_fogMod (\<lambda>u v. - 1) 3 4 = 0 \<and>
   drawFractal_fogMod (\<lambda>u v. 1) 3 4 < 1"
  using drawFractal_fogMod_range [of "\<lambda>u v. 1" 3 4]
  by (simp add: drawFractal_fogMod_def Let_def upt_0_3)

text \<open>
  The layered noise of the fog overlay. Its amplitudes \<open>1, 1/2, 1/4, \<dots>\<close> sum to
  \<open>2 - 2 / 2\<^sup>n\<close> over \<open>n\<close> layers, which bounds the sum of the samples; the value
  \<open>(noiseSum + 1) / 2\<close> stays in \<open>[0, 1]\<close> for one layer. The background wash, which
  normalises its own sum the same way, clamps the result.
\<close>

lemma applyFogLayer_noiseSum_Suc:
  "applyFogLayer_noiseSum noise fSize (Suc n) px py =
   applyFogLayer_noiseSum noise fSize n px py +
   noise (real px * (fSize * 2 ^ n)) (real py * (fSize * 2 ^ n)) * (1 / 2 ^ n)"
  by (simp add: applyFogLayer_noiseSum_def Let_def)

lemma applyFogLayer_noiseSum_bound:
  assumes "\<forall>u v. - 1 \<le> noise u v \<and> noise u v \<le> 1"
  shows "\<bar>applyFogLayer_noiseSum noise fSize n px py\<bar> \<le> 2 - 2 / 2 ^ n"
proof (induction n)
  case 0
  show ?case by (simp add: applyFogLayer_noiseSum_def)
next
  case (Suc n)
  define t where "t = noise (real px * (fSize * 2 ^ n)) (real py * (fSize * 2 ^ n))"
  from assms have t: "\<bar>t\<bar> \<le> 1" by (simp add: t_def abs_le_iff)
  have p: "(0::real) < 2 ^ n" by simp
  have "\<bar>t * (1 / 2 ^ n)\<bar> \<le> 1 / 2 ^ n"
    using t p by (simp add: abs_mult field_simps)
  then have "\<bar>applyFogLayer_noiseSum noise fSize (Suc n) px py\<bar> \<le> (2 - 2 / 2 ^ n) + 1 / 2 ^ n"
    using Suc.IH unfolding applyFogLayer_noiseSum_Suc t_def [symmetric] by linarith
  also have "\<dots> = 2 - 2 / 2 ^ Suc n" by (simp add: field_simps)
  finally show ?case .
qed

lemma applyFogLayer_fogIntensity_single_layer:
  assumes "\<forall>u v. - 1 \<le> noise u v \<and> noise u v \<le> 1"
  shows "0 \<le> applyFogLayer_fogIntensity noise fSize 1 px py \<and>
         applyFogLayer_fogIntensity noise fSize 1 px py \<le> 1"
  using applyFogLayer_noiseSum_bound [OF assms, of fSize 1 px py]
  by (simp add: applyFogLayer_fogIntensity_def abs_le_iff)

lemma drawPerlinNoiseBackground_variation_clamped:
  "0 \<le> drawPerlinNoiseBackground_variation noise px py \<and>
   drawPerlinNoiseBackground_variation noise px py \<le> 1"
  by (simp add: drawPerlinNoiseBackground_variation_def Let_def)

text \<open>
  Claim C3 on the code: with two layers \<open>fogIntensity\<close> is \<open>(n\<^sub>0 + n\<^sub>1 / 2 + 1) / 2\<close> for
  the two samples \<open>n\<^sub>0\<close> and \<open>n\<^sub>1\<close>. Where both samples are 1 it is \<open>5/4\<close>, and where both are
  -1 it is \<open>-1/4\<close>, at every pixel and for every \<open>fogSize\<close>; at pixel \<open>(60, 0)\<close> with a
  \<open>fogSize\<close> of \<open>0.01\<close>, samples of \<open>0.9\<close> and \<open>0.6\<close> give \<open>1.1\<close>. The value leaves \<open>[0, 1]\<close> on
  both sides.
\<close>

theorem applyFogLayer_fogIntensity_out_of_range:
  "applyFogLayer_fogIntensity noise fSize 2 px py =
     (noise (real px * fSize) (real py * fSize) +
      noise (real px * (fSize * 2)) (real py * (fSize * 2)) / 2 + 1) / 2 \<and>
   applyFogLayer_fogIntensity (\<lambda>u v. 1) fSize 2 px py = 5 / 4 \<and>
   applyFogLayer_fogIntensity (\<lambda>u v. - 1) fSize 2 px py = - 1 / 4 \<and>
   applyFogLayer_fogIntensity (\<lambda>u v. if u < 1 then 9 / 10 else 6 / 10) (1 / 100) 2 60 0 = 11 / 10"
  by (simp add: applyFogLayer_fogIntensity_def applyFogLayer_noiseSum_def upt_0_2 Let_def)

section \<open>Loops over the pixels\<close>

text \<open>
  Every pass is a loop over the columns inside a loop over the rows, or the other way
  round. An invariant of the body is an invariant of the pass; a property that the body
  at one pixel establishes and every body keeps holds after the pass. Two pixels of the
  grid have different indices, and so different bytes.
\<close>

lemma fold_invariant:
  "(\<And>a s. a \<in> set xs \<Longrightarrow> I s \<Longrightarrow> I (f a s)) \<Longrightarrow> I s \<Longrightarrow> I (fold f xs s)"
  by (induction xs arbitrary: s) simp_all

lemma nested_fold_invariant:
  assumes "\<And>a b s. a \<in> set xs \<Longrightarrow> b \<in> set ys \<Longrightarrow> I s \<Longrightarrow> I (f a b s)" and "I s"
  shows "I (fold (\<lambda>a. fold (f a) ys) xs s)"
proof (rule fold_invariant [where I = I])
  fix a s assume "a \<in> set xs" and "I s"
  then show "I (fold (f a) ys s)"
    using assms(1) by (intro fold_invariant [where I = I]) auto
qed (rule assms(2))

lemma fold_establish:
  assumes "target \<in> set xs"
    and est: "\<And>s. L s \<Longrightarrow> Q (f target s)"
    and pres: "\<And>a s. a \<in> set xs \<Longrightarrow> Q s \<Longrightarrow> L s \<Longrightarrow> Q (f a s)"
    and len: "\<And>a s. a \<in> set xs \<Longrightarrow> L s \<Longrightarrow> L (f a s)"
    and "L s"
  shows "Q (fold f xs s) \<and> L (fold f xs s)"
  using assms
proof (induction xs arbitrary: s)
  case Nil
  then show ?case by simp
next
  case (Cons a xs)
  have L': "L (f a s)" using Cons.prems(4) [of a s] Cons.prems(5) by simp
  show ?case
  proof (cases "a = target")
    case True
    have "Q (f a s) \<and> L (f a s)" using True Cons.prems(2) [OF Cons.prems(5)] L' by simp
    then have "(\<lambda>s. Q s \<and> L s) (fold f xs (f a s))"
      using Cons.prems(3,4) by (intro fold_invariant [where I = "\<lambda>s. Q s \<and> L s"]) auto
    then show ?thesis by simp
  next
    case False
    with Cons.prems(1) have "target \<in> set xs" by simp
    then have "Q (fold f xs (f a s)) \<and> L (fold f xs (f a s))"
      using Cons.prems(2,3,4) L' by (intro Cons.IH) auto
    then show ?thesis by simp
  qed
qed

lemma pixel_index_eqD:
  fixes px py px' py' w :: nat
  assumes "px < w" "px' < w" "py * w + px = py' * w + px'"
  shows "px = px' \<and> py = py'"
proof -
  have m1: "(py * w + px) mod w = px" using assms(1) by simp
  have m2: "(py' * w + px') mod w = px'" using assms(2) by simp
  have a: "px = px'" using m1 m2 by (simp only: assms(3))
  with assms(3) have "py * w = py' * w" by simp
  with assms(1) have "py = py'" by simp
  with a show ?thesis by simp
qed

lemma channel_index_neq:
  fixes a b c d :: nat
  assumes "a \<noteq> b" "c < 4" "d < 4"
  shows "a * 4 + c \<noteq> b * 4 + d"
  using assms by arith

lemma blendInto_other: "j \<noteq> i \<Longrightarrow> blendInto data i fg alpha ! j = data ! j"
  by (simp add: blendInto_def)

lemma applyFogLayer_pixel_other:
  assumes "j \<noteq> (py * width g + px) * 4" "j \<noteq> (py * width g + px) * 4 + 1"
    "j \<noteq> (py * width g + px) * 4 + 2"
  shows "applyFogLayer_pixel g px py data ! j = data ! j"
  using assms by (simp add: applyFogLayer_pixel_def Let_def blendInto_other)

lemma render_softFog_pixel_other:
  assumes "j \<noteq> (py * width g + px) * 4" "j \<noteq> (py * width g + px) * 4 + 1"
    "j \<noteq> (py * width g + px) * 4 + 2"
  shows "render_softFog_pixel g px py data ! j = data ! j"
  using assms by (simp add: render_softFog_pixel_def Let_def)

lemma skipFog_star:
  assumes "s \<in> set (starPositions g)" "inStarDisk s px py"
  shows "skipFog g px py"
  using assms by (auto simp: skipFog_def Let_def list_ex_iff)

lemma other_pixel_channels:
  fixes px py px' py' w c :: nat
  assumes "px < w" "px' < w" "(px', py') \<noteq> (px, py)" "c < 4"
  shows "(py * w + px) * 4 + c \<noteq> (py' * w + px') * 4"
    "(py * w + px) * 4 + c \<noteq> (py' * w + px') * 4 + 1"
    "(py * w + px) * 4 + c \<noteq> (py' * w + px') * 4 + 2"
proof -
  from assms(1-3) have ne: "py * w + px \<noteq> py' * w + px'"
    using pixel_index_eqD [of px w px' py py'] by auto
  show "(py * w + px) * 4 + c \<noteq> (py' * w + px') * 4"
    using channel_index_neq [OF ne assms(4), of 0] by simp
  show "(py * w + px) * 4 + c \<noteq> (py' * w + px') * 4 + 1"
    using channel_index_neq [OF ne assms(4), of 1] by simp
  show "(py * w + px) * 4 + c \<noteq> (py' * w + px') * 4 + 2"
    using channel_index_neq [OF ne assms(4), of 2] by simp
qed

lemma applyFogLayer_pixel_keeps:
  assumes "skipFog g px py" "px < width g" "px' < width g" "c < 4"
  shows "applyFogLayer_pixel g px' py' data ! ((py * width g + px) * 4 + c) =
         data ! ((py * width g + px) * 4 + c)"
proof (cases "(px', py') = (px, py)")
  case True
  with assms(1) show ?thesis by (simp add: applyFogLayer_pixel_def)
next
  case False
  from other_pixel_channels [OF assms(2) assms(3) False assms(4)]
  show ?thesis by (intro applyFogLayer_pixel_other)
qed

lemma render_softFog_pixel_keeps:
  assumes "skipFog g px py" "px < width g" "px' < width g" "c < 4"
  shows "render_softFog_pixel g px' py' data ! ((py * width g + px) * 4 + c) =
         data ! ((py * width g + px) * 4 + c)"
proof (cases "(px', py') = (px, py)")
  case True
  with assms(1) show ?thesis by (simp add: render_softFog_pixel_def)
next
  case False
  from other_pixel_channels [OF assms(2) assms(3) False assms(4)]
  show ?thesis by (intro render_softFog_pixel_other)
qed

lemma applyFogLayer_keeps:
  assumes "skipFog g px py" "px < width g" "c < 4"
  shows "canvas (applyFogLayer g) ! ((py * width g + px) * 4 + c) =
         canvas g ! ((py * width g + px) * 4 + c)"
proof -
  let ?j = "(py * width g + px) * 4 + c"
  have "(\<lambda>d. d ! ?j = canvas g ! ?j)
          (fold (\<lambda>px'. fold (\<lambda>py'. applyFogLayer_pixel g px' py') [0..<height g])
             [0..<width g] (canvas g))"
  proof (rule nested_fold_invariant [where I = "\<lambda>d. d ! ?j = canvas g ! ?j"])
    fix px' py' d
    assume "px' \<in> set [0..<width g]" and "d ! ?j = canvas g ! ?j"
    then show "applyFogLayer_pixel g px' py' d ! ?j = canvas g ! ?j"
      using applyFogLayer_pixel_keeps [OF assms(1) assms(2) _ assms(3), of px' py' d] by simp
  qed simp
  then show ?thesis by (simp add: applyFogLayer_def)
qed

lemma render_softFog_keeps:
  assumes "skipFog g px py" "px < width g" "c < 4"
  shows "canvas (render_softFog g) ! ((py * width g + px) * 4 + c) =
         canvas g ! ((py * width g + px) * 4 + c)"
proof -
  let ?j = "(py * width g + px) * 4 + c"
  have "(\<lambda>d. d ! ?j = canvas g ! ?j)
          (fold (\<lambda>px'. fold (\<lambda>py'. render_softFog_pixel g px' py') [0..<height g])
             [0..<width g] (canvas g))"
  proof (rule nested_fold_invariant [where I = "\<lambda>d. d ! ?j = canvas g ! ?j"])
    fix px' py' d
    assume "px' \<in> set [0..<width g]" and "d ! ?j = canvas g ! ?j"
    then show "render_softFog_pixel g px' py' d ! ?j = canvas g ! ?j"
      using render_softFog_pixel_keeps [OF assms(1) assms(2) _ assms(3), of px' py' d] by simp
  qed simp
  then show ?thesis by (simp add: render_softFog_def)
qed


section \<open>Star exclusion\<close>

text \<open>
  Claim C5. For every star list and configuration, a pixel of the grid whose Euclidean
  distance to the centre of some recorded star is at most that star's radius has the same
  red, green and blue bytes after the fog overlay pass as before it, the same after the
  final soft-fog pass as before it, and so the same after both in sequence.
\<close>

theorem star_exclusion:
  assumes "s \<in> set (starPositions g)"
    and "sqrt ((real px - real_of_int (star_x s))\<^sup>2 + (real py - real_of_int (star_y s))\<^sup>2)
           \<le> star_radius s"
    and "px < width g" and "py < height g" and "c < 3"
  shows "canvas (applyFogLayer g) ! ((py * width g + px) * 4 + c) =
           canvas g ! ((py * width g + px) * 4 + c) \<and>
         canvas (render_softFog g) ! ((py * width g + px) * 4 + c) =
           canvas g ! ((py * width g + px) * 4 + c) \<and>
         canvas (render_softFog (applyFogLayer g)) ! ((py * width g + px) * 4 + c) =
           canvas g ! ((py * width g + px) * 4 + c)"
proof -
  from assms(2) have disk: "inStarDisk s px py" by (simp add: inStarDisk_def)
  with assms(1) have skip: "skipFog g px py" by (rule skipFog_star)
  from assms(5) have c: "c < 4" by simp
  have same: "starPositions (applyFogLayer g) = starPositions g"
    "width (applyFogLayer g) = width g"
    by (simp_all add: applyFogLayer_def)
  from assms(1) disk have skip': "skipFog (applyFogLayer g) px py"
    using skipFog_star [of s "applyFogLayer g" px py] by (simp add: same)
  have a: "canvas (applyFogLayer g) ! ((py * width g + px) * 4 + c) =
           canvas g ! ((py * width g + px) * 4 + c)"
    using skip assms(3) c by (rule applyFogLayer_keeps)
  have b: "canvas (render_softFog g) ! ((py * width g + px) * 4 + c) =
           canvas g ! ((py * width g + px) * 4 + c)"
    using skip assms(3) c by (rule render_softFog_keeps)
  have "canvas (render_softFog (applyFogLayer g)) ! ((py * width g + px) * 4 + c) =
        canvas (applyFogLayer g) ! ((py * width g + px) * 4 + c)"
    using render_softFog_keeps [OF skip', of c] assms(3) c by (simp add: same)
  with a b show ?thesis by simp
qed

theorem star_exclusion_witness:
  "\<lparr>star_x = 0, star_y = 0, star_radius = 1\<rparr> \<in> set (starPositions example_generator) \<and>
   sqrt ((real 1 - real_of_int 0)\<^sup>2 + (real 0 - real_of_int 0)\<^sup>2) \<le> 1 \<and>
   canvas (applyFogLayer example_generator) ! 6 = 10 \<and>
   canvas (render_softFog example_generator) ! 6 = 10 \<and>
   canvas (render_softFog (applyFogLayer example_generator)) ! 6 = 10"
  using star_exclusion [of "\<lparr>star_x = 0, star_y = 0, star_radius = 1\<rparr>" example_generator 1 0 2]
  by (simp add: example_generator_def)


text \<open>
  The passes are not the identity: on the small generator, pixel \<open>(1, 1)\<close> lies outside
  the star's disk and both passes brighten it.
\<close>

lemma example_fogIntensity:
  "applyFogLayer_fogIntensity (\<lambda>u v. 0) fSize n px py = 1 / 2"
proof -
  have "applyFogLayer_noiseSum (\<lambda>u v. 0) fSize n px py = 0"
  proof (induction n)
    case 0
    show ?case by (simp add: applyFogLayer_noiseSum_def)
  next
    case (Suc n)
    then show ?case by (simp add: applyFogLayer_noiseSum_Suc)
  qed
  then show ?thesis by (simp add: applyFogLayer_fogIntensity_def)
qed

lemma applyFogLayer_changes_other_pixel:
  "canvas (applyFogLayer example_generator) ! 12 = 18 \<and>
   canvas (render_softFog example_generator) ! 12 = 16"
  by (simp add: applyFogLayer_def render_softFog_def render_softFog_pixel_def
      example_generator_def upt_0_2 applyFogLayer_pixel_def
      skipFog_def inStarDisk_def Let_def example_fogIntensity blendInto_def blend_def
      toUint8Clamp_def roundHalfEven_def coloredAt_def)

section \<open>Fractal colouring pass\<close>

text \<open>
  The source skips a pixel when \<open>fade < 0.01\<close>, the specification when \<open>fade \<le> 0.01\<close>.
  The two agree, because \<open>fade\<close> is never \<open>0.01\<close>: that needs
  \<open>(iter / cap) powr 1.5 = 0.99\<close>, so \<open>10000 * iter\<^sup>3 = 9801 * cap\<^sup>3\<close>, which has no
  solution in natural numbers with \<open>cap \<ge> 1\<close> (descent on the power of 2).
\<close>

lemma cube_descent:
  fixes a b :: nat
  shows "1250 * a ^ 3 = 9801 * b ^ 3 \<Longrightarrow> b = 0"
proof (induction b arbitrary: a rule: less_induct)
  case (less b)
  show ?case
  proof (rule ccontr)
    assume nz: "b \<noteq> 0"
    have "even (1250 * a ^ 3)" by simp
    then have "even (9801 * b ^ 3)" using less.prems by simp
    then have "even b" by simp
    then obtain e where e: "b = 2 * e" by (elim evenE)
    from less.prems have "625 * a ^ 3 = 9801 * (4 * e ^ 3)"
      by (simp add: e power_mult_distrib)
    then have "even (625 * a ^ 3)" by simp
    then have "even a" by simp
    then obtain j where j: "a = 2 * j" by (elim evenE)
    from less.prems have "1250 * j ^ 3 = 9801 * e ^ 3"
      by (simp add: e j power_mult_distrib)
    moreover from nz have "e < b" by (simp add: e)
    ultimately have "e = 0" by (rule less.IH [rotated])
    with e nz show False by simp
  qed
qed

lemma no_cube_ratio:
  fixes i c :: nat
  assumes "10000 * i ^ 3 = 9801 * c ^ 3"
  shows "c = 0"
proof -
  have "even (10000 * i ^ 3)" by simp
  then have "even (9801 * c ^ 3)" using assms by simp
  then have "even c" by simp
  then obtain d where d: "c = 2 * d" by (elim evenE)
  from assms have "1250 * i ^ 3 = 9801 * d ^ 3"
    by (simp add: d power_mult_distrib)
  then have "d = 0" by (rule cube_descent)
  with d show ?thesis by simp
qed

lemma fade_never_threshold:
  fixes i c :: nat
  assumes "1 \<le> c"
  shows "1 - Math_pow (real i / real c) 1.5 \<noteq> 0.01"
proof
  assume eq: "1 - Math_pow (real i / real c) 1.5 = 0.01"
  define r where "r = real i / real c"
  from eq have p: "r powr (3 / 2) = 99 / 100" by (simp add: Math_pow_def r_def)
  have "r \<noteq> 0" using p by auto
  moreover have "0 \<le> r" by (simp add: r_def)
  ultimately have pos: "0 < r" by simp
  have "r powr (3 / 2) * r powr (3 / 2) = r powr 3"
    by (simp add: powr_add [symmetric])
  also have "\<dots> = r ^ 3" using pos by (simp add: powr_numeral)
  finally have "r ^ 3 = (99 / 100) * (99 / 100)" using p by simp
  then have "real i ^ 3 / real c ^ 3 = 9801 / 10000"
    by (simp add: r_def power_divide)
  moreover have "real c ^ 3 \<noteq> 0" using assms by simp
  ultimately have "10000 * real i ^ 3 = 9801 * real c ^ 3"
    by (simp add: field_simps)
  then have "real (10000 * i ^ 3) = real (9801 * c ^ 3)" by simp
  then have "10000 * i ^ 3 = 9801 * c ^ 3" by (simp only: of_nat_eq_iff)
  then have "c = 0" by (rule no_cube_ratio)
  with assms show False by simp
qed

lemma drawFractal_pixel_areas:
  "snd (drawFractal_pixel g type px py st) =
   (snd st)[py * width g + px :=
      (iterAt g type (planeX g (real px)) (planeY g (real py)) < maxIter g \<and>
       fadeOf g (iterAt g type (planeX g (real px)) (planeY g (real py))) > 0.01)]"
  by (simp add: drawFractal_pixel_def Let_def split: prod.splits)

lemma drawFractal_pixel_skip:
  "fadeOf g (iterAt g type (planeX g (real px)) (planeY g (real py))) < 0.01 \<Longrightarrow>
   fst (drawFractal_pixel g type px py st) = fst st"
  by (simp add: drawFractal_pixel_def Let_def)

lemma drawFractal_pixel_other:
  assumes "j \<noteq> (py * width g + px) * 4" "j \<noteq> (py * width g + px) * 4 + 1"
    "j \<noteq> (py * width g + px) * 4 + 2"
  shows "fst (drawFractal_pixel g type px py st) ! j = fst st ! j"
  using assms
  by (simp add: drawFractal_pixel_def Let_def blendInto_other split: prod.splits)

lemma pixel_index_less:
  fixes px py w h :: nat
  assumes "px < w" "py < h"
  shows "py * w + px < w * h"
proof -
  have "py * w + px < py * w + w" using assms(1) by simp
  also have "\<dots> = (py + 1) * w" by simp
  also have "\<dots> \<le> h * w" using assms(2) by (intro mult_le_mono1) simp
  finally show ?thesis by (simp add: mult.commute)
qed

lemma drawFractal_pixel_keeps:
  assumes "fadeOf g (iterAt g type (planeX g (real px)) (planeY g (real py))) < 0.01"
    and "px < width g" "px' < width g" "c < 4"
  shows "fst (drawFractal_pixel g type px' py' st) ! ((py * width g + px) * 4 + c) =
         fst st ! ((py * width g + px) * 4 + c)"
proof (cases "(px', py') = (px, py)")
  case True
  with assms(1) show ?thesis by (simp add: drawFractal_pixel_skip)
next
  case False
  from other_pixel_channels [OF assms(2) assms(3) False assms(4)]
  show ?thesis by (intro drawFractal_pixel_other)
qed

lemma drawFractal_keeps:
  assumes "fadeOf g (iterAt g type (planeX g (real px)) (planeY g (real py))) < 0.01"
    and "px < width g" "c < 4"
  shows "canvas (drawFractal g type) ! ((py * width g + px) * 4 + c) =
         canvas g ! ((py * width g + px) * 4 + c)"
proof -
  define j where "j = (py * width g + px) * 4 + c"
  define I where "I = (\<lambda>st::nat list \<times> bool list. fst st ! j = canvas g ! j)"
  have step: "I (drawFractal_pixel g type px' py' st)"
    if "py' \<in> set [0..<height g]" "px' \<in> set [0..<width g]" "I st" for py' px' st
    using drawFractal_pixel_keeps [OF assms(1) assms(2) _ assms(3), where px' = px' and py' = py' and st = st] that
    by (simp add: I_def j_def)
  have "I (fold (\<lambda>py'. fold (\<lambda>px'. drawFractal_pixel g type px' py') [0..<width g])
             [0..<height g] (canvas g, replicate (width g * height g) False))"
    by (rule nested_fold_invariant [where I = I, OF step]) (simp_all add: I_def)
  then show ?thesis by (simp add: drawFractal_def Let_def I_def j_def)
qed

lemma drawFractal_areas:
  assumes "px < width g" "py < height g"
  shows "coloredAreas (drawFractal g type) ! (py * width g + px) =
         (iterAt g type (planeX g (real px)) (planeY g (real py)) < maxIter g \<and>
          fadeOf g (iterAt g type (planeX g (real px)) (planeY g (real py))) > 0.01)"
proof -
  define k where "k = py * width g + px"
  define n where "n = width g * height g"
  define v where "v \<longleftrightarrow>
    iterAt g type (planeX g (real px)) (planeY g (real py)) < maxIter g \<and>
    fadeOf g (iterAt g type (planeX g (real px)) (planeY g (real py))) > 0.01"
  define Q where "Q = (\<lambda>st::nat list \<times> bool list. snd st ! k = v)"
  define L where "L = (\<lambda>st::nat list \<times> bool list. length (snd st) = n)"
  define row where
    "row = (\<lambda>py'. fold (\<lambda>px'. drawFractal_pixel g type px' py') [0..<width g])"
  have k: "k < n" unfolding k_def n_def using assms by (rule pixel_index_less)
  have len: "L (drawFractal_pixel g type px' py' st)" if "L st" for px' py' st
    using that by (simp add: L_def drawFractal_pixel_areas)
  have est: "Q (drawFractal_pixel g type px py st)" if "L st" for st
    using that k by (simp add: Q_def L_def drawFractal_pixel_areas k_def [symmetric] v_def)
  have pres: "Q (drawFractal_pixel g type px' py' st)"
    if "px' \<in> set [0..<width g]" "Q st" "L st" for px' py' st
  proof (cases "(px', py') = (px, py)")
    case True
    with est [OF that(3)] show ?thesis by simp
  next
    case False
    with that(1) assms(1) have "py' * width g + px' \<noteq> k"
      using pixel_index_eqD [of px' "width g" px py' py] by (auto simp: k_def)
    with that(2) show ?thesis by (simp add: Q_def drawFractal_pixel_areas)
  qed
  have row_len: "L (row py' st)" if "L st" for py' st
    unfolding row_def using len that by (rule fold_invariant [where I = L])
  have row_pres: "Q (row py' st)" if "Q st" "L st" for py' st
  proof -
    have "Q (row py' st) \<and> L (row py' st)"
      unfolding row_def
    proof (rule fold_invariant [where I = "\<lambda>st. Q st \<and> L st"])
      show "Q st \<and> L st" using that by simp
    next
      fix a s assume "a \<in> set [0..<width g]" and "Q s \<and> L s"
      then show "Q (drawFractal_pixel g type a py' s) \<and> L (drawFractal_pixel g type a py' s)"
        using pres [of a s py'] len [of s a py'] by simp
    qed
    then show ?thesis by simp
  qed
  have row_est: "Q (row py st)" if "L st" for st
  proof -
    have "Q (row py st) \<and> L (row py st)"
      unfolding row_def
    proof (rule fold_establish [where target = px and Q = Q and L = L])
      show "px \<in> set [0..<width g]" using assms(1) by simp
      show "L st" by (rule that)
    next
      fix s assume "L s" then show "Q (drawFractal_pixel g type px py s)" by (rule est)
    next
      fix a s assume "a \<in> set [0..<width g]" "Q s" "L s"
      then show "Q (drawFractal_pixel g type a py s)" by (rule pres)
    next
      fix a s assume "L s" then show "L (drawFractal_pixel g type a py s)" by (rule len)
    qed
    then show ?thesis by simp
  qed
  have "Q (fold row [0..<height g] (canvas g, replicate n False)) \<and>
        L (fold row [0..<height g] (canvas g, replicate n False))"
  proof (rule fold_establish [where target = py and Q = Q and L = L])
    show "py \<in> set [0..<height g]" using assms(2) by simp
    show "L (canvas g, replicate n False)" by (simp add: L_def)
  next
    fix s assume "L s" then show "Q (row py s)" by (rule row_est)
  next
    fix a s assume "Q s" "L s" then show "Q (row a s)" by (rule row_pres)
  next
    fix a s assume "L s" then show "L (row a s)" by (rule row_len)
  qed
  then show ?thesis
    by (simp add: drawFractal_def Let_def Q_def row_def k_def n_def v_def)
qed

text \<open>
  Claim C4. For every pixel of the grid and every cap of at least 1, with
  \<open>mask = iter / cap\<close> and \<open>fade = 1 - mask ^ 1.5\<close>: after the colouring pass the entry of the
  pixel in \<open>coloredAreas\<close> is \<open>iter < cap \<and> fade > 0.01\<close>, and when \<open>fade \<le> 0.01\<close> the four
  bytes of the pixel are what they were before the pass.
\<close>

theorem drawFractal_mask_and_skip:
  assumes "px < width g" and "py < height g" and "1 \<le> maxIter g"
  shows "let iter = iterAt g type (planeX g (real px)) (planeY g (real py));
             mask = real iter / real (maxIter g);
             fade = 1 - mask powr 1.5
         in coloredAreas (drawFractal g type) ! (py * width g + px) =
              (iter < maxIter g \<and> fade > 0.01) \<and>
            (fade \<le> 0.01 \<longrightarrow>
               (\<forall>c<4. canvas (drawFractal g type) ! ((py * width g + px) * 4 + c) =
                       canvas g ! ((py * width g + px) * 4 + c)))"
proof -
  define iter where "iter = iterAt g type (planeX g (real px)) (planeY g (real py))"
  have fade: "fadeOf g iter = 1 - (real iter / real (maxIter g)) powr 1.5"
    by (simp add: fadeOf_def maskOf_def Math_pow_def)
  have ne: "fadeOf g iter \<noteq> 0.01"
    using fade_never_threshold [OF assms(3), of iter] by (simp add: fadeOf_def maskOf_def)
  have a: "coloredAreas (drawFractal g type) ! (py * width g + px) =
           (iter < maxIter g \<and> fadeOf g iter > 0.01)"
    unfolding iter_def using assms(1,2) by (rule drawFractal_areas)
  have b: "canvas (drawFractal g type) ! ((py * width g + px) * 4 + c) =
           canvas g ! ((py * width g + px) * 4 + c)"
    if "fadeOf g iter \<le> 0.01" "c < 4" for c
  proof -
    from that(1) ne have "fadeOf g iter < 0.01" by simp
    then show ?thesis unfolding iter_def using assms(1) that(2) by (rule drawFractal_keeps)
  qed
  from a b show ?thesis
    unfolding Let_def iter_def [symmetric] fade [symmetric] by blast
qed

lemma example_iter_inside: "iterAt example_generator ''julia'' (planeX example_generator 1) (planeY example_generator 1) = 3"
  by (simp add: iterAt_def planeX_def planeY_def example_generator_def julia_def julia_loop.simps)

lemma example_iter_outside: "iterAt example_generator ''julia'' (planeX example_generator 0) (planeY example_generator 0) = 0"
  by (simp add: iterAt_def planeX_def planeY_def example_generator_def julia_def julia_loop.simps)


theorem drawFractal_mask_and_skip_witness:
  "coloredAreas (drawFractal example_generator ''julia'') ! 0 = True \<and>
   coloredAreas (drawFractal example_generator ''julia'') ! 3 = False \<and>
   canvas (drawFractal example_generator ''julia'') ! 12 = 10 \<and>
   canvas (drawFractal example_generator ''julia'') ! 13 = 10 \<and>
   canvas (drawFractal example_generator ''julia'') ! 14 = 10"
proof -
  have w: "width example_generator = 2" "height example_generator = 2"
    "maxIter example_generator = 3" "canvas example_generator = replicate 16 10"
    by (simp_all add: example_generator_def)
  have a: "coloredAreas (drawFractal example_generator ''julia'') ! 0 = True"
    using drawFractal_mask_and_skip [of 0 example_generator 0 "''julia''"]
    by (simp add: w example_iter_outside Let_def)
  have b: "coloredAreas (drawFractal example_generator ''julia'') ! 3 = False \<and>
    (\<forall>c<4. canvas (drawFractal example_generator ''julia'') ! (12 + c) = 10)"
    using drawFractal_mask_and_skip [of 1 example_generator 1 "''julia''"]
    by (simp add: w example_iter_inside Let_def)
  from b have q: "c < 4 \<Longrightarrow> canvas (drawFractal example_generator ''julia'') ! (12 + c) = 10"
    for c by simp
  from a b q [of 0] q [of 1] q [of 2] show ?thesis by simp
qed


section \<open>Star placement pass\<close>

text \<open>
  An invariant of the attempt that holds at the start holds when the loop ends; the loop
  ends with one of its two bounds reached; its final state is the initial state after
  some number of attempts; and a recorded star stays recorded.
\<close>

lemma drawStars_loop_invariant:
  assumes "I st"
    and "\<And>s. I s \<Longrightarrow> starsPlotted s < maxStars \<Longrightarrow> attempts s < maxStars * 10 \<Longrightarrow>
           I (drawStars_attempt g type rnd s)"
  shows "I (drawStars_loop g type rnd st)"
  using assms
proof (induction g type rnd st rule: drawStars_loop.induct)
  case (1 g type rnd st)
  show ?case
  proof (cases "starsPlotted st < maxStars \<and> attempts st < maxStars * 10")
    case True
    then have "I (drawStars_attempt g type rnd st)" using "1.prems" by blast
    then have "I (drawStars_loop g type rnd (drawStars_attempt g type rnd st))"
      using "1.IH" [OF True] "1.prems"(2) by blast
    then show ?thesis using True by (subst drawStars_loop.simps) simp
  next
    case False
    then show ?thesis using "1.prems"(1) by (subst drawStars_loop.simps) auto
  qed
qed

lemma drawStars_loop_exit:
  "\<not> (starsPlotted (drawStars_loop g type rnd st) < maxStars \<and>
      attempts (drawStars_loop g type rnd st) < maxStars * 10)"
proof (induction g type rnd st rule: drawStars_loop.induct)
  case (1 g type rnd st)
  show ?case
  proof (cases "starsPlotted st < maxStars \<and> attempts st < maxStars * 10")
    case True
    with "1.IH" show ?thesis by (subst (1 2) drawStars_loop.simps) simp
  next
    case False
    then show ?thesis by (subst (1 2) drawStars_loop.simps) auto
  qed
qed

lemma drawStars_loop_funpow:
  "\<exists>n. drawStars_loop g type rnd st = (drawStars_attempt g type rnd ^^ n) st \<and>
       attempts (drawStars_loop g type rnd st) = attempts st + n"
proof (induction g type rnd st rule: drawStars_loop.induct)
  case (1 g type rnd st)
  show ?case
  proof (cases "starsPlotted st < maxStars \<and> attempts st < maxStars * 10")
    case True
    from "1.IH" [OF True] obtain n where
      n: "drawStars_loop g type rnd (drawStars_attempt g type rnd st) =
            (drawStars_attempt g type rnd ^^ n) (drawStars_attempt g type rnd st)"
         "attempts (drawStars_loop g type rnd (drawStars_attempt g type rnd st)) =
            attempts (drawStars_attempt g type rnd st) + n"
      by blast
    have a: "attempts (drawStars_attempt g type rnd st) = attempts st + 1"
      by (simp add: drawStars_attempt_def Let_def)
    have l: "drawStars_loop g type rnd st =
             drawStars_loop g type rnd (drawStars_attempt g type rnd st)"
      using True by (subst drawStars_loop.simps) simp
    have "drawStars_loop g type rnd st = (drawStars_attempt g type rnd ^^ Suc n) st \<and>
          attempts (drawStars_loop g type rnd st) = attempts st + Suc n"
      unfolding l using n a by (simp add: funpow_swap1)
    then show ?thesis by blast
  next
    case False
    then have "drawStars_loop g type rnd st = st" by (subst drawStars_loop.simps) auto
    then have "drawStars_loop g type rnd st = (drawStars_attempt g type rnd ^^ 0) st \<and>
          attempts (drawStars_loop g type rnd st) = attempts st + 0" by simp
    then show ?thesis by blast
  qed
qed

lemma star_loop_inv_attempt:
  assumes "star_loop_inv g type rnd s" "starsPlotted s < maxStars" "attempts s < maxStars * 10"
  shows "star_loop_inv g type rnd (drawStars_attempt g type rnd s)"
  using assms by (auto simp: star_loop_inv_def drawStars_attempt_def Let_def)

lemma star_loop_inv_run: "star_loop_inv g type rnd (drawStars_run g type rnd)"
  unfolding drawStars_run_def
proof (rule drawStars_loop_invariant [where I = "star_loop_inv g type rnd"])
  show "star_loop_inv g type rnd \<lparr>stars = [], starsPlotted = 0, attempts = 0, drawn = 0\<rparr>"
    by (simp add: star_loop_inv_def)
next
  fix s
  assume "star_loop_inv g type rnd s" "starsPlotted s < maxStars" "attempts s < maxStars * 10"
  then show "star_loop_inv g type rnd (drawStars_attempt g type rnd s)"
    by (rule star_loop_inv_attempt)
qed

lemma stars_kept:
  "set (stars st) \<subseteq> set (stars (drawStars_loop g type rnd st))"
  by (rule drawStars_loop_invariant [where I = "\<lambda>s. set (stars st) \<subseteq> set (stars s)"])
    (auto simp: drawStars_attempt_def Let_def)

text \<open>
  Claim C6. An attempt records a star, the star \<open>newStar\<close> of its random draws, if and
  only if the iteration count of the sampled pixel under the selected recurrence equals
  the cap, and it always counts as one attempt. The radius of the star is
  \<open>size * glowMultiplier * 1.2\<close> when the glow draw exceeds 0.3 and \<open>size * 2\<close> otherwise,
  with \<open>size\<close> the size draw times 1.4 and \<open>glowMultiplier\<close> 6 when the brightness draw
  exceeds 0.6 and 4 otherwise. For every random stream the pass is at most 3000 attempts
  from the empty state, records at most 300 stars, stops with 300 stars or 3000 attempts,
  and every star it records comes from an attempt whose iteration count was the cap.
\<close>

theorem star_placement:
  "(sampleIter g type rnd (drawn st) = maxIter g \<longrightarrow>
      stars (drawStars_attempt g type rnd st) = stars st @ [newStar g rnd (drawn st)] \<and>
      starsPlotted (drawStars_attempt g type rnd st) = starsPlotted st + 1) \<and>
   (sampleIter g type rnd (drawn st) \<noteq> maxIter g \<longrightarrow>
      stars (drawStars_attempt g type rnd st) = stars st \<and>
      starsPlotted (drawStars_attempt g type rnd st) = starsPlotted st) \<and>
   attempts (drawStars_attempt g type rnd st) = attempts st + 1 \<and>
   sampleIter g type rnd k =
     (if type = ''julia''
      then julia (maxIter g) (planeX g (real_of_int \<lfloor>rnd k * real (width g)\<rfloor>))
             (planeY g (real_of_int \<lfloor>rnd (k + 1) * real (height g)\<rfloor>))
             (juliaParams_cx g) (juliaParams_cy g)
      else mandelbrot (maxIter g) (planeX g (real_of_int \<lfloor>rnd k * real (width g)\<rfloor>))
             (planeY g (real_of_int \<lfloor>rnd (k + 1) * real (height g)\<rfloor>))) \<and>
   star_radius (newStar g rnd k) =
     (let size = rnd (k + 2) * 1.4;
          glowMultiplier = (if rnd (k + 3) > 0.6 then 6 else 4)
      in if rnd (k + 4) > 0.3 then size * glowMultiplier * 1.2 else size * 2) \<and>
   (\<exists>n\<le>3000. drawStars_run g type rnd =
        (drawStars_attempt g type rnd ^^ n)
          \<lparr>stars = [], starsPlotted = 0, attempts = 0, drawn = 0\<rparr> \<and>
      attempts (drawStars_run g type rnd) = n) \<and>
   starsPlotted (drawStars_run g type rnd) \<le> 300 \<and>
   (starsPlotted (drawStars_run g type rnd) = 300 \<or> attempts (drawStars_run g type rnd) = 3000) \<and>
   length (starPositions (drawStarsInFractal g type rnd)) = starsPlotted (drawStars_run g type rnd) \<and>
   (\<forall>s \<in> set (starPositions (drawStarsInFractal g type rnd)).
      \<exists>k. sampleIter g type rnd k = maxIter g \<and> s = newStar g rnd k)"
proof -
  let ?init = "\<lparr>stars = [], starsPlotted = 0, attempts = 0, drawn = 0\<rparr>"
  have a1: "sampleIter g type rnd (drawn st) = maxIter g \<longrightarrow>
      stars (drawStars_attempt g type rnd st) = stars st @ [newStar g rnd (drawn st)] \<and>
      starsPlotted (drawStars_attempt g type rnd st) = starsPlotted st + 1"
    by (simp add: drawStars_attempt_def Let_def)
  have a2: "sampleIter g type rnd (drawn st) \<noteq> maxIter g \<longrightarrow>
      stars (drawStars_attempt g type rnd st) = stars st \<and>
      starsPlotted (drawStars_attempt g type rnd st) = starsPlotted st"
    by (simp add: drawStars_attempt_def Let_def)
  have a3: "attempts (drawStars_attempt g type rnd st) = attempts st + 1"
    by (simp add: drawStars_attempt_def Let_def)
  have a4: "sampleIter g type rnd k =
     (if type = ''julia''
      then julia (maxIter g) (planeX g (real_of_int \<lfloor>rnd k * real (width g)\<rfloor>))
             (planeY g (real_of_int \<lfloor>rnd (k + 1) * real (height g)\<rfloor>))
             (juliaParams_cx g) (juliaParams_cy g)
      else mandelbrot (maxIter g) (planeX g (real_of_int \<lfloor>rnd k * real (width g)\<rfloor>))
             (planeY g (real_of_int \<lfloor>rnd (k + 1) * real (height g)\<rfloor>)))"
    by (simp add: sampleIter_def iterAt_def samplePx_def samplePy_def)
  have a5: "star_radius (newStar g rnd k) =
     (let size = rnd (k + 2) * 1.4;
          glowMultiplier = (if rnd (k + 3) > 0.6 then 6 else 4)
      in if rnd (k + 4) > 0.3 then size * glowMultiplier * 1.2 else size * 2)"
    by (simp add: newStar_def Let_def)
  have inv: "star_loop_inv g type rnd (drawStars_run g type rnd)"
    by (rule star_loop_inv_run)
  obtain n where n: "drawStars_run g type rnd = (drawStars_attempt g type rnd ^^ n) ?init"
    "attempts (drawStars_run g type rnd) = n"
    using drawStars_loop_funpow [of g type rnd ?init] by (auto simp: drawStars_run_def)
  from inv n(2) have "n \<le> 3000" by (simp add: star_loop_inv_def maxStars_def)
  with n have b1: "\<exists>n\<le>3000. drawStars_run g type rnd = (drawStars_attempt g type rnd ^^ n) ?init \<and>
      attempts (drawStars_run g type rnd) = n" by blast
  from inv have b2: "starsPlotted (drawStars_run g type rnd) \<le> 300"
    by (simp add: star_loop_inv_def maxStars_def)
  have b3: "starsPlotted (drawStars_run g type rnd) = 300 \<or>
            attempts (drawStars_run g type rnd) = 3000"
    using drawStars_loop_exit [of g type rnd ?init] inv
    by (auto simp: drawStars_run_def star_loop_inv_def maxStars_def)
  from inv have b4: "length (starPositions (drawStarsInFractal g type rnd)) =
      starsPlotted (drawStars_run g type rnd)"
    by (simp add: star_loop_inv_def drawStarsInFractal_def)
  from inv have b5: "\<forall>s \<in> set (starPositions (drawStarsInFractal g type rnd)).
      \<exists>k. sampleIter g type rnd k = maxIter g \<and> s = newStar g rnd k"
    by (simp add: star_loop_inv_def drawStarsInFractal_def)
  from a1 a2 a3 a4 a5 b1 b2 b3 b4 b5 show ?thesis by blast
qed


lemma example_sampleIter: "sampleIter example_generator ''julia'' (\<lambda>k. 9 / 10) k = 3"
  by (simp add: sampleIter_def samplePx_def samplePy_def iterAt_def planeX_def planeY_def
      example_generator_def julia_def julia_loop.simps)

lemma example_newStar:
  "newStar example_generator (\<lambda>k. 9 / 10) k = \<lparr>star_x = 1, star_y = 1, star_radius = 9072 / 1000\<rparr>"
  by (simp add: newStar_def samplePx_def samplePy_def example_generator_def Let_def)

lemma example_first_star:
  "\<lparr>star_x = 1, star_y = 1, star_radius = 9072 / 1000\<rparr>
     \<in> set (starPositions (drawStarsInFractal example_generator ''julia'' (\<lambda>k. 9 / 10)))"
proof -
  let ?init = "\<lparr>stars = [], starsPlotted = 0, attempts = 0, drawn = 0\<rparr>"
  let ?rnd = "\<lambda>k::nat. 9 / 10 :: real"
  let ?st = "drawStars_attempt example_generator ''julia'' ?rnd ?init"
  have m: "maxIter example_generator = 3" by (simp add: example_generator_def)
  have "stars ?st = [\<lparr>star_x = 1, star_y = 1, star_radius = 9072 / 1000\<rparr>]"
    by (simp add: drawStars_attempt_def Let_def example_sampleIter example_newStar m)
  moreover have "drawStars_run example_generator ''julia'' ?rnd =
      drawStars_loop example_generator ''julia'' ?rnd ?st"
    unfolding drawStars_run_def by (subst drawStars_loop.simps) (simp add: maxStars_def)
  moreover have "set (stars ?st) \<subseteq> set (stars (drawStars_loop example_generator ''julia'' ?rnd ?st))"
    by (rule stars_kept)
  ultimately show ?thesis by (simp add: drawStarsInFractal_def)
qed

theorem star_placement_witness:
  "stars (drawStars_attempt example_generator ''julia'' (\<lambda>k. 9 / 10)
      \<lparr>stars = [], starsPlotted = 0, attempts = 0, drawn = 0\<rparr>) =
     [\<lparr>star_x = 1, star_y = 1, star_radius = 9072 / 1000\<rparr>] \<and>
   sampleIter example_generator ''julia'' (\<lambda>k. 9 / 10) 0 = maxIter example_generator \<and>
   \<lparr>star_x = 1, star_y = 1, star_radius = 9072 / 1000\<rparr>
     \<in> set (starPositions (drawStarsInFractal example_generator ''julia'' (\<lambda>k. 9 / 10))) \<and>
   (\<exists>k. sampleIter example_generator ''julia'' (\<lambda>k. 9 / 10) k = maxIter example_generator \<and>
        \<lparr>star_x = 1, star_y = 1, star_radius = 9072 / 1000\<rparr> =
          newStar example_generator (\<lambda>k. 9 / 10) k) \<and>
   length (starPositions (drawStarsInFractal example_generator ''julia'' (\<lambda>k. 9 / 10))) \<le> 300"
proof -
  let ?init = "\<lparr>stars = [], starsPlotted = 0, attempts = 0, drawn = 0\<rparr>"
  let ?rnd = "\<lambda>k::nat. 9 / 10 :: real"
  have m: "maxIter example_generator = 3" by (simp add: example_generator_def)
  note t = star_placement [of example_generator "''julia''" ?rnd ?init 0]
  from t have a: "stars (drawStars_attempt example_generator ''julia'' ?rnd ?init) =
      [\<lparr>star_x = 1, star_y = 1, star_radius = 9072 / 1000\<rparr>]"
    by (simp add: example_sampleIter example_newStar m)
  from t have b: "\<forall>s \<in> set (starPositions (drawStarsInFractal example_generator ''julia'' ?rnd)).
      \<exists>k. sampleIter example_generator ''julia'' ?rnd k = maxIter example_generator \<and>
          s = newStar example_generator ?rnd k"
    by blast
  from t have c: "length (starPositions (drawStarsInFractal example_generator ''julia'' ?rnd)) \<le> 300"
    by simp
  from a b [rule_format, OF example_first_star] c example_first_star show ?thesis
    by (simp add: example_sampleIter m)
qed

section \<open>Degenerate coordinates\<close>

text \<open>
  On finite numbers the loops on the numbers with special values are the loops on the
  reals: the two models of the engine agree wherever both apply.
\<close>

lemma mandelbrot_js_loop_finite:
  "mandelbrot_js_loop cap (Fin x) (Fin y) (Fin zx) (Fin zy) iter =
   mandelbrot_loop (5 / 1000) cap x y zx zy iter"
proof (induction "5 / 1000 :: real" cap x y zx zy iter rule: mandelbrot_loop.induct)
  case (1 cap x y zx zy iter)
  show ?case
  proof (cases "zx * zx + zy * zy < 4 \<and> iter < cap")
    case True
    with "1.hyps" [OF True refl refl refl refl refl] show ?thesis
      by (subst mandelbrot_js_loop.simps, subst mandelbrot_loop.simps)
        (simp add: Let_def js_sub_def)
  next
    case False
    then show ?thesis
      by (subst mandelbrot_js_loop.simps, subst mandelbrot_loop.simps) auto
  qed
qed

lemma mandelbrot_js_finite: "mandelbrot_js cap (Fin x) (Fin y) = mandelbrot cap x y"
  by (simp add: mandelbrot_js_def mandelbrot_def mandelbrot_eps_def mandelbrot_js_loop_finite)

lemma julia_js_loop_finite:
  "julia_js_loop cap (Fin cx) (Fin cy) (Fin zx) (Fin zy) iter =
   julia_loop cap cx cy zx zy iter"
proof (induction cap cx cy zx zy iter rule: julia_loop.induct)
  case (1 cap cx cy zx zy iter)
  show ?case
  proof (cases "zx * zx + zy * zy < 4 \<and> iter < cap")
    case True
    with "1.IH" [OF True refl refl refl] show ?thesis
      by (subst julia_js_loop.simps, subst julia_loop.simps) (simp add: Let_def js_sub_def)
  next
    case False
    then show ?thesis
      by (subst julia_js_loop.simps, subst julia_loop.simps) auto
  qed
qed

lemma julia_js_finite:
  "julia_js cap (Fin x) (Fin y) (Fin cx) (Fin cy) = julia cap x y cx cy"
  by (simp add: julia_js_def julia_def julia_js_loop_finite)

text \<open>
  When a coordinate is infinite or NaN, the magnitude of a point that has it as a
  component is infinite or NaN and the comparison with 4 is false. \<open>julia\<close> starts at the
  coordinate, so its first comparison fails. \<open>mandelbrot\<close> starts at \<open>(0, 0)\<close>, so its first
  comparison holds; after the first step a component is infinite or NaN and the second
  comparison fails. A zoom of zero makes every coordinate infinite or NaN.
\<close>

lemma not_less_4_degenerate:
  "\<not> finite_num zx \<or> \<not> finite_num zy \<Longrightarrow>
   \<not> js_less (js_add (js_mul zx zx) (js_mul zy zy)) (Fin 4)"
  by (cases zx; cases zy) (simp_all add: signedInf_def)

lemma julia_js_degenerate:
  "\<not> finite_num x \<or> \<not> finite_num y \<Longrightarrow> julia_js cap x y cx cy = 0"
  using not_less_4_degenerate [of x y]
  by (simp add: julia_js_def julia_js_loop.simps)

lemma mandelbrot_js_first_step_degenerate:
  assumes "\<not> finite_num x \<or> \<not> finite_num y"
  defines "zx2 \<equiv> js_add (js_add (js_sub (js_mul (Fin 0) (Fin 0)) (js_mul (Fin 0) (Fin 0))) x)
                   (js_mul (Fin (5 / 1000))
                      (js_sin (js_mul (js_add (js_mul (js_mul (Fin 2) (Fin 0)) (Fin 0)) y) (Fin 3))))"
  defines "zy2 \<equiv> js_add (js_add (js_mul (js_mul (Fin 2) (Fin 0)) (Fin 0)) y)
                   (js_mul (Fin (5 / 1000)) (js_sin (js_mul zx2 (Fin 2))))"
  shows "\<not> finite_num zx2 \<or> \<not> finite_num zy2"
  using assms(1) unfolding zx2_def zy2_def
  by (cases x; cases y) (simp_all add: signedInf_def js_sub_def)

lemma mandelbrot_js_degenerate:
  assumes "\<not> finite_num x \<or> \<not> finite_num y" and "1 \<le> cap"
  shows "mandelbrot_js cap x y = 1"
proof -
  from assms(2) have c: "0 < cap" by simp
  have first: "js_less (js_add (js_mul (Fin 0) (Fin 0)) (js_mul (Fin 0) (Fin 0))) (Fin 4)"
    by simp
  show ?thesis
    unfolding mandelbrot_js_def
    apply (subst mandelbrot_js_loop.simps)
    apply (simp only: first c simp_thms if_True Let_def)
    apply (subst mandelbrot_js_loop.simps)
    using not_less_4_degenerate [OF mandelbrot_js_first_step_degenerate [OF assms(1)]]
    apply simp
    done
qed

lemma plane_js_zero_zoom: "\<not> finite_num (plane_js p extent (Fin 0) offset)"
  by (cases offset) (simp_all add: plane_js_def js_sub_def signedInf_def)

text \<open>
  Claim C9 as stated fails for \<open>mandelbrot\<close>: at a zoom of zero on the canvas of 800 by
  800, pixel \<open>(0, 400)\<close> has the coordinates \<open>-\<infinity>\<close> and NaN, and \<open>mandelbrot\<close> returns 1,
  not 0.
\<close>

theorem degenerate_coordinates_counterexample:
  "plane_js 0 800 (Fin 0) (Fin (- 3 / 4)) = NegInf \<and>
   plane_js 400 800 (Fin 0) (Fin 0) = NaN \<and>
   mandelbrot_js 100 (plane_js 0 800 (Fin 0) (Fin (- 3 / 4))) (plane_js 400 800 (Fin 0) (Fin 0)) = 1"
proof -
  have x: "plane_js 0 800 (Fin 0) (Fin (- 3 / 4)) = NegInf"
    by (simp add: plane_js_def js_sub_def signedInf_def)
  have y: "plane_js 400 800 (Fin 0) (Fin 0) = NaN"
    by (simp add: plane_js_def js_sub_def signedInf_def)
  have "mandelbrot_js 100 NegInf NaN = 1"
    by (simp add: mandelbrot_js_def mandelbrot_js_loop.simps Let_def js_sub_def signedInf_def)
  with x y show ?thesis by simp
qed

text \<open>
  Claim C9, amended. When a coordinate is infinite or NaN and the cap is at least 1,
  neither function faults (both are total): \<open>julia\<close> returns 0, which is below the cap,
  and \<open>mandelbrot\<close> returns 1, which is below the cap exactly when the cap is at least 2.
\<close>

theorem degenerate_coordinates:
  assumes "\<not> finite_num x \<or> \<not> finite_num y" and "1 \<le> cap"
  shows "julia_js cap x y cx cy = 0 \<and> julia_js cap x y cx cy < cap \<and>
         mandelbrot_js cap x y = 1 \<and> (mandelbrot_js cap x y < cap \<longleftrightarrow> 2 \<le> cap)"
  using assms by (auto simp: julia_js_degenerate mandelbrot_js_degenerate)

theorem degenerate_coordinates_witness:
  "\<not> finite_num (plane_js 0 800 (Fin 0) (Fin (- 3 / 4))) \<and>
   julia_js 100 (plane_js 0 800 (Fin 0) (Fin (- 3 / 4))) (plane_js 400 800 (Fin 0) (Fin 0))
     (Fin (- 4 / 5)) (Fin (156 / 1000)) = 0 \<and>
   mandelbrot_js 100 (plane_js 0 800 (Fin 0) (Fin (- 3 / 4))) (plane_js 400 800 (Fin 0) (Fin 0)) = 1 \<and>
   mandelbrot_js 1 PosInf NaN = 1"
  using degenerate_coordinates [of "plane_js 0 800 (Fin 0) (Fin (- 3 / 4))"
      "plane_js 400 800 (Fin 0) (Fin 0)" 100 "Fin (- 4 / 5)" "Fin (156 / 1000)"]
    degenerate_coordinates [of PosInf NaN 1]
    plane_js_zero_zoom [of 0 800 "Fin (- 3 / 4)"]
  by simp

end
